theory Spec2Isabelle
  imports Main
begin

section \<open>TokenPriceService: USD price resolution with a per-token cache\<close>

text \<open>
  This theory embeds \<^verbatim>\<open>src/app/services/token-price.service.ts\<close>.

  The service composes RxJS pipelines over four external reads: the off-chain price
  API (\<^verbatim>\<open>coinGeckoService.getUSDPrice\<close>), the token helper contract
  (\<^verbatim>\<open>getTokenUSDValue\<close>), the swap aggregator (\<^verbatim>\<open>oneSplitService.getExpectedReturn\<close>)
  and the DAI/USD reference feed (\<^verbatim>\<open>latestAnswer\<close>). Each read is promise-like: one
  subscription to it either delivers one value or fails. A subscription to a pipeline is
  modelled by the list of external reads it performs, in order, paired with its outcome,
  a value of \<open>error + 'a\<close>. A read that never settles is outside the model.

  The reference feed is shared between resolutions by \<^verbatim>\<open>shareReplay\<close>. The state of that
  operator is modelled as a record with one function for each thing that can happen to
  it; a resolution is run from the state it finds.

  \<^verbatim>\<open>BigNumber\<close> (ethers v4) is an arbitrary-precision integer: \<open>int\<close>.
  \<^verbatim>\<open>tokenDecimals\<close> is a token's ERC-20 decimals count: \<open>nat\<close>.
\<close>

subsection \<open>Values, errors and external reads\<close>

datatype error =
    AdapterFailure
  | InvalidArgument
  | NumericFault
  | TryOneSplit

text \<open>The optional parameter \<^verbatim>\<open>blockNumber?: number | 'latest'\<close>.\<close>

datatype block_tag = Latest | Block int

text \<open>The object the aggregator resolves to; the service reads its \<^verbatim>\<open>returnAmount\<close>.\<close>

record expected_return =
  returnAmount :: int
  distribution :: "int list"

datatype call = CoinGeckoCall | TokenHelperCall | OneSplitCall | ChainLinkCall

type_synonym 'a obs = "call list \<times> (error + 'a)"

text \<open>
  The injected collaborators. \<open>getUSDPrice\<close> delivers a JavaScript number; the service
  only ever uses its decimal text \<^verbatim>\<open>String(price)\<close>, so the number is carried as that
  text. \<open>latestAnswer k\<close> is the outcome of the \<open>k\<close>-th read of the reference feed within
  one subscription to the source of \<^verbatim>\<open>daiUsdPriceBN$\<close> (obtaining the contract instance
  included).
  \<open>getTokenUSDValue\<close> likewise includes obtaining the helper instance.
\<close>

record services =
  getUSDPrice :: "string \<Rightarrow> error + string"
  getTokenUSDValue :: "string \<Rightarrow> int \<Rightarrow> string \<Rightarrow> block_tag \<Rightarrow> error + int"
  getExpectedReturn ::
    "string \<Rightarrow> string \<Rightarrow> int \<Rightarrow> int \<Rightarrow> int \<Rightarrow> string \<Rightarrow> block_tag option \<Rightarrow> error + expected_return"
  latestAnswer :: "nat \<Rightarrow> error + int"

subsection \<open>The state of \<^verbatim>\<open>shareReplay({ bufferSize: 1, refCount: true })\<close>\<close>

text \<open>
  \<^verbatim>\<open>shareReplay\<close> is library code (RxJS 6). Applied once, when the field
  \<^verbatim>\<open>daiUsdPriceBN$\<close> is initialised, it keeps five variables for all later subscribers:
  the replay subject (absent, or present with its one-slot buffer), the number of
  subscribers, whether the variable holding the subscription to the source is set, and
  two flags. \<open>sourceSubscriptions\<close> counts how often the source has been subscribed.
\<close>

record share_state =
  replaySubject :: "int option option"
  refCount :: nat
  subscription :: bool
  hasError :: bool
  isComplete :: bool
  sourceSubscriptions :: nat

definition share_initial :: share_state where
  "share_initial =
     \<lparr>replaySubject = None, refCount = 0, subscription = False, hasError = False,
      isComplete = False, sourceSubscriptions = 0\<rparr>"

text \<open>
  A subscriber arrives: it is counted, and the source is subscribed (with a new, empty
  subject) only if there is no subject or the last subscription to the source failed.
\<close>

definition share_subscribe :: "share_state \<Rightarrow> share_state" where
  "share_subscribe s =
     (let s = s\<lparr>refCount := Suc (refCount s)\<rparr>
      in if replaySubject s = None \<or> hasError s
         then s\<lparr>hasError := False, replaySubject := Some None, subscription := True,
                sourceSubscriptions := Suc (sourceSubscriptions s)\<rparr>
         else s)"

text \<open>What an arriving subscriber is handed at once: the buffer of a subject that is kept.\<close>

definition share_replayed :: "share_state \<Rightarrow> int option" where
  "share_replayed s =
     (if hasError s then None
      else (case replaySubject s of None \<Rightarrow> None | Some buffer \<Rightarrow> buffer))"

text \<open>
  A subscriber leaves: with \<^verbatim>\<open>refCount: true\<close>, when the last one leaves before the
  source has completed, the source is unsubscribed and the subject dropped.
\<close>

definition share_teardown :: "share_state \<Rightarrow> share_state" where
  "share_teardown s =
     (let s = s\<lparr>refCount := refCount s - 1\<rparr>
      in if subscription s \<and> \<not> isComplete s \<and> refCount s = 0
         then s\<lparr>subscription := False, replaySubject := None\<rparr>
         else s)"

text \<open>The source delivers a value: the subject buffers it and hands it to every subscriber.\<close>

definition share_next :: "int \<Rightarrow> share_state \<Rightarrow> share_state" where
  "share_next v s =
     (case replaySubject s of None \<Rightarrow> s | Some _ \<Rightarrow> s\<lparr>replaySubject := Some (Some v)\<rparr>)"

text \<open>
  The source fails, or completes: the flag is set, every subscriber is told, and each of
  them leaves in turn.
\<close>

definition share_error :: "share_state \<Rightarrow> share_state" where
  "share_error s = (share_teardown ^^ refCount s) (s\<lparr>hasError := True\<rparr>)"

definition share_complete :: "share_state \<Rightarrow> share_state" where
  "share_complete s =
     (share_teardown ^^ refCount s) (s\<lparr>isComplete := True, subscription := False\<rparr>)"

text \<open>
  Anything that can happen to the shared feed, in any order. A subscriber that is not
  there cannot leave, and a source that is not subscribed delivers nothing.
\<close>

datatype feed_event = Subscribe | Unsubscribe | SourceNext int | SourceError | SourceComplete

fun share_step :: "share_state \<Rightarrow> feed_event \<Rightarrow> share_state" where
  "share_step s Subscribe = share_subscribe s"
| "share_step s Unsubscribe = (if refCount s = 0 then s else share_teardown s)"
| "share_step s (SourceNext v) = (if subscription s then share_next v s else s)"
| "share_step s SourceError = (if subscription s then share_error s else s)"
| "share_step s SourceComplete = (if subscription s then share_complete s else s)"

definition share_run :: "share_state \<Rightarrow> feed_event list \<Rightarrow> share_state" where
  "share_run s events = foldl share_step s events"

text \<open>
  What holds of the state between any two events: while the source is subscribed there
  is a subject, a subscriber, and neither flag is set; once the source has completed
  the subject is kept for good.
\<close>

definition share_inv :: "share_state \<Rightarrow> bool" where
  "share_inv s =
     ((\<not> subscription s \<or> (replaySubject s \<noteq> None \<and> \<not> hasError s \<and> 0 < refCount s \<and> \<not> isComplete s))
      \<and> (\<not> isComplete s \<or> (replaySubject s \<noteq> None \<and> \<not> hasError s)))"

subsection \<open>The moment of a resolution\<close>

text \<open>
  A resolution is run against the collaborators as they answer at that moment, and
  against three more facts of the moment: the state in which it finds the shared feed;
  how many reads of the feed have settled by the time the aggregator answers (the two
  are asked side by side, and nothing fixes which answers first); and whether the
  observable of \<^verbatim>\<open>web3Service.getInstance\<close>, which is not among the sources, completes once
  it has delivered the contract instance.
\<close>

record world = services +
  feedSubject :: share_state
  feedReadsSettled :: nat
  instanceCompletes :: bool

text \<open>The imported constant object \<^verbatim>\<open>environment\<close>, of which one address is used here.\<close>

record environment =
  ONE_SPLIT_CONTRACT_ADDRESS :: string

definition DAI_ADDRESS :: string where
  "DAI_ADDRESS = ''0x6B175474E89094C44Da98b954EedeAC495271d0F''"

definition SAI_ADDRESS :: string where
  "SAI_ADDRESS = ''0x89d24a6b4ccb1b6faa2625fe562bdd9a23260359''"

text \<open>
  Modelled from the spec: \<^verbatim>\<open>zeroValueBN\<close> is imported from \<^verbatim>\<open>../utils\<close>, which is not
  among the sources; the spec calls it the zero sentinel, a price of magnitude 0, and
  passes it as \<^verbatim>\<open>flags=0\<close> to the aggregator.
\<close>

definition zeroValueBN :: int where
  "zeroValueBN = 0"

subsection \<open>BigNumber arithmetic\<close>

text \<open>
  \<^verbatim>\<open>BigNumber.div\<close> raises on a zero divisor and otherwise truncates toward zero
  (HOL's \<open>div\<close> on \<open>int\<close> rounds down instead, so the truncation is written out).
\<close>

definition tdiv :: "int \<Rightarrow> int \<Rightarrow> int" where
  "tdiv a b = sgn a * sgn b * (\<bar>a\<bar> div \<bar>b\<bar>)"

definition bn_div :: "int \<Rightarrow> int \<Rightarrow> error + int" where
  "bn_div a b = (if b = 0 then Inl NumericFault else Inr (tdiv a b))"

subsection \<open>\<^verbatim>\<open>parseUnits\<close> of ethers v4\<close>

text \<open>
  \<^verbatim>\<open>parseUnits(input, decimals)\<close> is library code (ethers v4, \<^verbatim>\<open>utils/units\<close>). It raises
  unless \<open>input\<close> matches \<^verbatim>\<open>/^-?[0-9.,]+$/\<close>; with zero decimals it hands the text to
  \<^verbatim>\<open>bigNumberify\<close>; otherwise it drops a leading minus sign, raises on a lone point or
  more than one point, raises when the fraction has more characters than \<open>decimals\<close>,
  hands the whole part and the fraction (padded with zeros on the right) to
  \<^verbatim>\<open>bigNumberify\<close>, which raises on anything but digits, and returns
  \<open>whole * 10^decimals + fraction\<close>, negated if there was a minus sign.
\<close>

definition is_digit :: "char \<Rightarrow> bool" where
  "is_digit c = (c \<in> set ''0123456789'')"

definition digit_value :: "char \<Rightarrow> int" where
  "digit_value c = int (of_char c) - 48"

definition decimal_value :: "string \<Rightarrow> int" where
  "decimal_value s = foldl (\<lambda>a c. 10 * a + digit_value c) 0 s"

fun split_on :: "char \<Rightarrow> string \<Rightarrow> string list" where
  "split_on c [] = [[]]"
| "split_on c (x # xs) =
     (if x = c then [] # split_on c xs
      else (case split_on c xs of [] \<Rightarrow> [[x]] | y # ys \<Rightarrow> (x # y) # ys))"

definition strip_minus :: "string \<Rightarrow> string" where
  "strip_minus input = (case input of [] \<Rightarrow> [] | c # cs \<Rightarrow> if c = CHR ''-'' then cs else input)"

definition is_negative :: "string \<Rightarrow> bool" where
  "is_negative input = (case input of [] \<Rightarrow> False | c # cs \<Rightarrow> c = CHR ''-'')"

definition matches_decimal :: "string \<Rightarrow> bool" where
  "matches_decimal input =
     (strip_minus input \<noteq> [] \<and> list_all (\<lambda>c. is_digit c \<or> c = CHR ''.'' \<or> c = CHR '','') (strip_minus input))"

definition parseUnits :: "string \<Rightarrow> nat \<Rightarrow> error + int" where
  "parseUnits input decimals =
     (if \<not> matches_decimal input then Inl InvalidArgument
      else if decimals = 0 then
        (if list_all is_digit (strip_minus input)
         then Inr ((if is_negative input then - 1 else 1) * decimal_value (strip_minus input))
         else Inl InvalidArgument)
      else
        (let negative = is_negative input;
             v = strip_minus input
         in if v = ''.'' then Inl InvalidArgument
            else
              (let comps = split_on (CHR ''.'') v
               in if length comps > 2 then Inl InvalidArgument
                  else
                    (let whole = (if hd comps = [] then ''0'' else hd comps);
                         fraction = (if length comps < 2 \<or> comps ! 1 = [] then ''0'' else comps ! 1)
                     in if length fraction > decimals then Inl NumericFault
                        else if \<not> list_all is_digit whole \<or> \<not> list_all is_digit fraction
                        then Inl InvalidArgument
                        else
                          (let fraction = fraction @ replicate (decimals - length fraction) (CHR ''0'');
                               wei = decimal_value whole * 10 ^ decimals + decimal_value fraction
                           in Inr (if negative then wei * (- 1) else wei))))))"

subsection \<open>RxJS operators on one subscription\<close>

definition of_obs :: "'a \<Rightarrow> 'a obs" where
  "of_obs v = ([], Inr v)"

definition throwError :: "error \<Rightarrow> 'a obs" where
  "throwError e = ([], Inl e)"

text \<open>\<^verbatim>\<open>fromPromise(call$)\<close>: one external read, logged, with its outcome.\<close>

definition fromPromise :: "call \<Rightarrow> error + 'a \<Rightarrow> 'a obs" where
  "fromPromise c r = ([c], r)"

text \<open>\<^verbatim>\<open>map(f)\<close>, where the projection may raise: the pipeline then fails with that error.\<close>

definition map_obs :: "('a \<Rightarrow> error + 'b) \<Rightarrow> 'a obs \<Rightarrow> 'b obs" where
  "map_obs f source =
     (case source of (cs, r) \<Rightarrow> (cs, case r of Inl e \<Rightarrow> Inl e | Inr v \<Rightarrow> f v))"

definition mergeMap :: "('a \<Rightarrow> 'b obs) \<Rightarrow> 'a obs \<Rightarrow> 'b obs" where
  "mergeMap f source =
     (case source of (cs, r) \<Rightarrow>
        (case r of Inl e \<Rightarrow> (cs, Inl e)
         | Inr v \<Rightarrow> (case f v of (cs', r') \<Rightarrow> (cs @ cs', r'))))"

text \<open>\<^verbatim>\<open>catchError(h)\<close>: the replacement pipeline is subscribed only after a failure.\<close>

definition catchError :: "(error \<Rightarrow> 'a obs) \<Rightarrow> 'a obs \<Rightarrow> 'a obs" where
  "catchError h source =
     (case source of (cs, r) \<Rightarrow>
        (case r of Inl e \<Rightarrow> (case h e of (cs', r') \<Rightarrow> (cs @ cs', r'))
         | Inr v \<Rightarrow> (cs, Inr v)))"

text \<open>
  \<^verbatim>\<open>combineLatest([a, b])\<close>, for a first source \<open>a\<close> that is a single read: both are
  subscribed, so the read of \<open>a\<close> and the first read of \<open>b\<close> are made at once. The join
  fails as soon as either fails, and then unsubscribes the other: when \<open>a\<close> fails while
  \<open>b\<close> is still reading, \<open>b\<close> makes no further read. \<open>settled\<close> is the number of reads of
  \<open>b\<close> that have settled when \<open>a\<close> answers.
\<close>

definition combineLatest :: "nat \<Rightarrow> 'a obs \<Rightarrow> 'b obs \<Rightarrow> ('a \<times> 'b) obs" where
  "combineLatest settled a b =
     (case a of (cs1, r1) \<Rightarrow> (case b of (cs2, r2) \<Rightarrow>
        (case r1 of
           Inl e1 \<Rightarrow>
             (cs1 @ take (Suc settled) cs2,
              if length cs2 \<le> settled
              then (case r2 of Inl e2 \<Rightarrow> Inl e2 | Inr y \<Rightarrow> Inl e1)
              else Inl e1)
         | Inr x \<Rightarrow>
             (cs1 @ cs2, case r2 of Inl e2 \<Rightarrow> Inl e2 | Inr y \<Rightarrow> Inr (x, y)))))"

text \<open>
  \<^verbatim>\<open>shareReplay\<close>, seen by one arriving subscriber: handed the buffered value, it reads
  nothing; otherwise it receives what the subscription to the source delivers. The
  reads listed are those of that subscription, which subscribers present at the same
  time share.
\<close>

definition shareReplay :: "share_state \<Rightarrow> int obs \<Rightarrow> int obs" where
  "shareReplay s source = (case share_replayed s of Some v \<Rightarrow> ([], Inr v) | None \<Rightarrow> source)"

text \<open>\<^verbatim>\<open>take(1)\<close> of a pipeline that delivers at most one value.\<close>

definition take1 :: "'a obs \<Rightarrow> 'a obs" where
  "take1 source = source"

text \<open>
  \<^verbatim>\<open>retry(count)\<close>: after a failure the source is subscribed again, at most \<open>count\<close>
  times; \<open>source k\<close> is the \<open>k\<close>-th subscription to the source.
\<close>

fun retry :: "nat \<Rightarrow> (nat \<Rightarrow> 'a obs) \<Rightarrow> nat \<Rightarrow> 'a obs" where
  "retry 0 source k = source k"
| "retry (Suc count) source k = catchError (\<lambda>_. retry count source (Suc k)) (source k)"

subsection \<open>The price pipelines\<close>

text \<open>
  The field \<^verbatim>\<open>daiUsdPriceBN$\<close>: the feed read under \<^verbatim>\<open>retry(5)\<close>, shared and replayed.
\<close>

definition daiUsdPriceBN :: "world \<Rightarrow> int obs" where
  "daiUsdPriceBN sv =
     shareReplay (feedSubject sv)
       (retry 5 (\<lambda>k. fromPromise ChainLinkCall (latestAnswer sv k)) 0)"

text \<open>A default parameter value applies when the argument is left out.\<close>

definition oneSplitAddress_or_default :: "environment \<Rightarrow> string option \<Rightarrow> string" where
  "oneSplitAddress_or_default envr a =
     (case a of None \<Rightarrow> ONE_SPLIT_CONTRACT_ADDRESS envr | Some x \<Rightarrow> x)"

text \<open>\<^verbatim>\<open>blockNumber || 'latest'\<close>: an absent block number and the number 0 both give \<^verbatim>\<open>'latest'\<close>.\<close>

definition block_or_latest :: "block_tag option \<Rightarrow> block_tag" where
  "block_or_latest b =
     (case b of None \<Rightarrow> Latest
      | Some Latest \<Rightarrow> Latest
      | Some (Block n) \<Rightarrow> if n = 0 then Latest else Block n)"

definition getTokenPriceFromHelper ::
  "environment \<Rightarrow> world \<Rightarrow> string \<Rightarrow> nat \<Rightarrow> block_tag option \<Rightarrow> string option \<Rightarrow> int obs" where
  "getTokenPriceFromHelper envr sv tokenAddress tokenDecimals blockNumber oneSplitAddress =
     (let nominator = 10 ^ tokenDecimals
      in fromPromise TokenHelperCall
           (getTokenUSDValue sv tokenAddress nominator
              (oneSplitAddress_or_default envr oneSplitAddress) (block_or_latest blockNumber)))"

definition getTokenOneSplitPrice ::
  "environment \<Rightarrow> world \<Rightarrow> string \<Rightarrow> nat \<Rightarrow> block_tag option \<Rightarrow> string option \<Rightarrow> int obs" where
  "getTokenOneSplitPrice envr sv tokenAddress tokenDecimals blockNumber oneSplitAddress =
     (if tokenAddress = DAI_ADDRESS \<or> tokenAddress = SAI_ADDRESS then of_obs (10 ^ 8)
      else
        (let oneSplitReturn = fromPromise OneSplitCall
               (getExpectedReturn sv DAI_ADDRESS tokenAddress (10 ^ 18) 10 zeroValueBN
                  (oneSplitAddress_or_default envr oneSplitAddress) blockNumber)
         in take1
              (catchError (\<lambda>_. of_obs zeroValueBN)
                 (map_obs
                    (\<lambda>(ret, daiUsdPrice).
                       (let nominator = 10 ^ tokenDecimals;
                            nominator2 = 10 ^ 8;
                            precision = 100000000
                        in case bn_div (nominator * precision * daiUsdPrice) (returnAmount ret) of
                             Inl e \<Rightarrow> Inl e
                           | Inr q \<Rightarrow> bn_div q nominator2))
                    (combineLatest (feedReadsSettled sv) oneSplitReturn (daiUsdPriceBN sv))))))"

text \<open>
  The two local pipelines of \<^verbatim>\<open>getTokenPriceBN\<close>. \<^verbatim>\<open>onChainPrice$\<close> is built on every
  call but reads nothing until it is subscribed.
\<close>

definition onChainPrice ::
  "environment \<Rightarrow> world \<Rightarrow> string \<Rightarrow> nat \<Rightarrow> block_tag option \<Rightarrow> string option \<Rightarrow> int obs" where
  "onChainPrice envr sv tokenAddress tokenDecimals blockNumber oneSplitAddress =
     catchError
       (\<lambda>_. getTokenOneSplitPrice envr sv tokenAddress tokenDecimals blockNumber oneSplitAddress)
       (mergeMap (\<lambda>price. if price = 0 then throwError TryOneSplit else of_obs price)
          (getTokenPriceFromHelper envr sv tokenAddress tokenDecimals blockNumber oneSplitAddress))"

definition offChainPrice :: "world \<Rightarrow> string \<Rightarrow> int obs" where
  "offChainPrice sv tokenAddress =
     map_obs (\<lambda>price. parseUnits price 8)
       (fromPromise CoinGeckoCall (getUSDPrice sv tokenAddress))"

definition getTokenPriceBN ::
  "environment \<Rightarrow> world \<Rightarrow> string \<Rightarrow> nat \<Rightarrow> block_tag option \<Rightarrow> string option \<Rightarrow> bool \<Rightarrow> int obs" where
  "getTokenPriceBN envr sv tokenAddress tokenDecimals blockNumber oneSplitAddress useOffChain =
     (let oneSplitAddress = Some (oneSplitAddress_or_default envr oneSplitAddress)
      in if \<not> useOffChain
         then onChainPrice envr sv tokenAddress tokenDecimals blockNumber oneSplitAddress
         else catchError
                (\<lambda>_. onChainPrice envr sv tokenAddress tokenDecimals blockNumber oneSplitAddress)
                (offChainPrice sv tokenAddress))"

text \<open>
  What a run of \<^verbatim>\<open>getTokenOneSplitPrice\<close> does to the shared feed. It subscribes unless
  the token is a stablecoin address, and its \<^verbatim>\<open>take(1)\<close> leaves as soon as the join has
  delivered or failed. Handed a buffered value, it only comes and goes. Otherwise: if
  the aggregator fails while the feed is still reading, it leaves; if the feed fails
  for good, the failure is delivered; if the feed answers only after the aggregator,
  the join delivers at that instant and \<^verbatim>\<open>take(1)\<close> leaves before the source can
  complete; if the feed answers first, the source completes if the observable of the
  contract instance does, and otherwise stays subscribed until the subscriber leaves.
\<close>

definition feed_events ::
  "environment \<Rightarrow> world \<Rightarrow> string \<Rightarrow> nat \<Rightarrow> block_tag option \<Rightarrow> string option \<Rightarrow> feed_event list" where
  "feed_events envr sv tokenAddress tokenDecimals blockNumber oneSplitAddress =
     (if tokenAddress = DAI_ADDRESS \<or> tokenAddress = SAI_ADDRESS then []
      else
        (case share_replayed (feedSubject sv) of
           Some v \<Rightarrow> [Subscribe, Unsubscribe]
         | None \<Rightarrow>
             (let quote = getExpectedReturn sv DAI_ADDRESS tokenAddress (10 ^ 18) 10 zeroValueBN
                    (oneSplitAddress_or_default envr oneSplitAddress) blockNumber;
                  source = retry 5 (\<lambda>k. fromPromise ChainLinkCall (latestAnswer sv k)) 0;
                  feedFirst = (length (fst source) \<le> feedReadsSettled sv)
              in if \<not> feedFirst \<and> isl quote then [Subscribe, Unsubscribe]
                 else
                   (case snd source of
                      Inl e \<Rightarrow> [Subscribe, SourceError]
                    | Inr v \<Rightarrow>
                        if feedFirst \<and> instanceCompletes sv
                        then [Subscribe, SourceNext v, SourceComplete]
                        else [Subscribe, SourceNext v, Unsubscribe]))))"

text \<open>The moment as the next resolution finds it.\<close>

definition after_resolution ::
  "environment \<Rightarrow> world \<Rightarrow> string \<Rightarrow> nat \<Rightarrow> block_tag option \<Rightarrow> string option \<Rightarrow> world" where
  "after_resolution envr sv tokenAddress tokenDecimals blockNumber oneSplitAddress =
     sv\<lparr>feedSubject :=
          share_run (feedSubject sv)
            (feed_events envr sv tokenAddress tokenDecimals blockNumber oneSplitAddress)\<rparr>"

subsection \<open>The cache of refreshing subjects\<close>

text \<open>
  \<^verbatim>\<open>RefreshingReplaySubject\<close> is imported from \<^verbatim>\<open>../utils\<close>; the service only constructs
  it, from a factory and a period in milliseconds. An object is modelled by these two
  constructor arguments and by its identity, the number of subjects constructed before
  it. The factory closes over the pipeline built once by the constructing call; it is
  applied to the moment at which it is subscribed.
\<close>

record subject =
  subject_id :: nat
  factory :: "world \<Rightarrow> int obs"
  period :: nat

text \<open>
  The field \<^verbatim>\<open>usdPriceCache$\<close>, a plain object keyed by the address string as given, with
  counts of the subjects constructed and of the \<^verbatim>\<open>getTokenPriceBN\<close> pipelines built.
  Keys are token addresses; the names of members that every JavaScript object inherits
  are not addresses and are left out.
\<close>

record service_state =
  usdPriceCache :: "string \<rightharpoonup> subject"
  subjects_created :: nat
  pipelines_built :: nat

definition initial_state :: service_state where
  "initial_state = \<lparr>usdPriceCache = Map.empty, subjects_created = 0, pipelines_built = 0\<rparr>"

definition getUsdTokenPrice ::
  "environment \<Rightarrow> service_state \<Rightarrow> string \<Rightarrow> nat \<Rightarrow> block_tag option \<Rightarrow> string option
     \<Rightarrow> subject \<times> service_state" where
  "getUsdTokenPrice envr st tokenAddress tokenDecimals blockNumber oneSplitAddress =
     (case usdPriceCache st tokenAddress of
        Some s \<Rightarrow> (s, st)
      | None \<Rightarrow>
          (let oneSplitAddress = Some (oneSplitAddress_or_default envr oneSplitAddress);
               tokenPrice =
                 (\<lambda>sv. getTokenPriceBN envr sv tokenAddress tokenDecimals blockNumber oneSplitAddress True);
               s = \<lparr>subject_id = subjects_created st, factory = tokenPrice, period = 10000\<rparr>;
               st' = st\<lparr>usdPriceCache := (usdPriceCache st)(tokenAddress \<mapsto> s),
                        subjects_created := Suc (subjects_created st),
                        pipelines_built := Suc (pipelines_built st)\<rparr>
           in (s, st')))"

text \<open>A sequence of calls of \<^verbatim>\<open>getUsdTokenPrice\<close>, each given by its four arguments.\<close>

type_synonym request = "string \<times> nat \<times> block_tag option \<times> string option"

fun run_requests :: "environment \<Rightarrow> service_state \<Rightarrow> request list \<Rightarrow> service_state" where
  "run_requests envr st [] = st"
| "run_requests envr st ((t, d, b, r) # rs) =
     run_requests envr (snd (getUsdTokenPrice envr st t d b r)) rs"

text \<open>
  The spec's normalisation of a token identifier, lowercasing; the service itself
  has no such step.
\<close>

definition spec_lowercase_char :: "char \<Rightarrow> char" where
  "spec_lowercase_char c =
     (if of_char c \<ge> (65::nat) \<and> of_char c \<le> (90::nat) then char_of (of_char c + (32::nat)) else c)"

definition spec_normalize :: "string \<Rightarrow> string" where
  "spec_normalize s = map spec_lowercase_char s"

subsection \<open>Concrete collaborators for the examples\<close>

definition env_example :: environment where
  "env_example = \<lparr>ONE_SPLIT_CONTRACT_ADDRESS = ''0xC586BeF4a0992C495Cf22e1aeEE4E446CECDee0E''\<rparr>"

text \<open>
  Every read fails. Here and below the shared feed is found in its initial state and
  the aggregator answers before any read of the feed has settled.
\<close>

definition sv_all_fail :: world where
  "sv_all_fail =
     \<lparr>getUSDPrice = (\<lambda>_. Inl AdapterFailure),
      getTokenUSDValue = (\<lambda>_ _ _ _. Inl AdapterFailure),
      getExpectedReturn = (\<lambda>_ _ _ _ _ _ _. Inl AdapterFailure),
      latestAnswer = (\<lambda>_. Inl AdapterFailure),
      feedSubject = share_initial, feedReadsSettled = 0, instanceCompletes = True\<rparr>"

text \<open>
  The spec's example: no off-chain price, no helper route, the aggregator quotes
  \<open>5 * 10^17\<close> and the reference feed reads \<open>10^8\<close>.
\<close>

definition sv_swap :: world where
  "sv_swap =
     \<lparr>getUSDPrice = (\<lambda>_. Inl AdapterFailure),
      getTokenUSDValue = (\<lambda>_ _ _ _. Inr 0),
      getExpectedReturn = (\<lambda>_ _ _ _ _ _ _. Inr \<lparr>returnAmount = 5 * 10 ^ 17, distribution = []\<rparr>),
      latestAnswer = (\<lambda>_. Inr (10 ^ 8)),
      feedSubject = share_initial, feedReadsSettled = 0, instanceCompletes = True\<rparr>"

text \<open>Only the off-chain API answers, with a number whose text is \<open>p\<close>.\<close>

definition sv_offchain :: "string \<Rightarrow> world" where
  "sv_offchain p = sv_all_fail\<lparr>getUSDPrice := (\<lambda>_. Inr p)\<rparr>"

text \<open>Only the helper contract answers, with \<open>v\<close>.\<close>

definition sv_helper :: "int \<Rightarrow> world" where
  "sv_helper v = sv_all_fail\<lparr>getTokenUSDValue := (\<lambda>_ _ _ _. Inr v)\<rparr>"

text \<open>The helper finds no route, the aggregator quotes a return of 0, the feed reads \<open>10^8\<close>.\<close>

definition sv_zero_quote :: world where
  "sv_zero_quote =
     sv_swap\<lparr>getExpectedReturn := (\<lambda>_ _ _ _ _ _ _. Inr \<lparr>returnAmount = 0, distribution = []\<rparr>)\<rparr>"

text \<open>The reference feed fails five times and answers on the sixth read.\<close>

definition sv_feed_sixth :: world where
  "sv_feed_sixth =
     sv_swap\<lparr>latestAnswer := (\<lambda>k. if k < 5 then Inl AdapterFailure else Inr (10 ^ 8))\<rparr>"

text \<open>
  The off-chain API quotes \<open>0.0000001\<close>, a number whose text is \<^verbatim>\<open>1e-7\<close>; the helper
  values the token at \<open>10\<close>, the same price at scale 8.
\<close>

definition sv_tiny_price :: world where
  "sv_tiny_price =
     sv_all_fail\<lparr>getUSDPrice := (\<lambda>_. Inr ''1e-7''), getTokenUSDValue := (\<lambda>_ _ _ _. Inr 10)\<rparr>"

text \<open>
  The aggregator fails at once; the feed would answer \<open>10^8\<close> on its first read, but
  that read has not settled when the aggregator's failure arrives.
\<close>

definition sv_quote_fails :: world where
  "sv_quote_fails = sv_swap\<lparr>getExpectedReturn := (\<lambda>_ _ _ _ _ _ _. Inl AdapterFailure)\<rparr>"

text \<open>
  The feed answers \<open>10^8\<close> before the aggregator does, and the observable of the
  contract instance completes.
\<close>

definition sv_feed_first :: world where
  "sv_feed_first = sv_swap\<lparr>feedReadsSettled := 1\<rparr>"

definition WETH_ADDRESS :: string where
  "WETH_ADDRESS = ''0xC02aaA39b223FE8D0A0e5C4F27eAD9083C756Cc2''"

section \<open>Properties of the pipelines\<close>

subsection \<open>What each pipeline reads and delivers\<close>

lemma oneSplitAddress_or_default_idem:
  "oneSplitAddress_or_default envr (Some (oneSplitAddress_or_default envr r)) =
   oneSplitAddress_or_default envr r"
  by (simp add: oneSplitAddress_or_default_def)

lemma getTokenPriceFromHelper_eq:
  "getTokenPriceFromHelper envr sv t d b r =
     ([TokenHelperCall],
      getTokenUSDValue sv t (10 ^ d) (oneSplitAddress_or_default envr r) (block_or_latest b))"
  by (simp add: getTokenPriceFromHelper_def fromPromise_def)

lemma getTokenPriceFromHelper_resolved:
  "getTokenPriceFromHelper envr sv t d b (Some (oneSplitAddress_or_default envr r)) =
   getTokenPriceFromHelper envr sv t d b r"
  by (simp add: getTokenPriceFromHelper_eq oneSplitAddress_or_default_idem)

lemma getTokenOneSplitPrice_resolved:
  "getTokenOneSplitPrice envr sv t d b (Some (oneSplitAddress_or_default envr r)) =
   getTokenOneSplitPrice envr sv t d b r"
  by (simp add: getTokenOneSplitPrice_def oneSplitAddress_or_default_idem)

lemma getTokenOneSplitPrice_stable:
  "t = DAI_ADDRESS \<or> t = SAI_ADDRESS \<Longrightarrow>
   getTokenOneSplitPrice envr sv t d b r = ([], Inr (10 ^ 8))"
  by (auto simp add: getTokenOneSplitPrice_def of_obs_def)

lemma getTokenOneSplitPrice_calls:
  assumes "t \<noteq> DAI_ADDRESS" "t \<noteq> SAI_ADDRESS"
  shows "\<exists>n. fst (getTokenOneSplitPrice envr sv t d b r)
               = OneSplitCall # take n (fst (daiUsdPriceBN sv))"
proof -
  obtain cs f where feed: "daiUsdPriceBN sv = (cs, f)"
    by (cases "daiUsdPriceBN sv") auto
  show ?thesis
  proof (cases "getExpectedReturn sv DAI_ADDRESS t (10 ^ 18) 10 zeroValueBN
                  (oneSplitAddress_or_default envr r) b")
    case (Inl e)
    then have "fst (getTokenOneSplitPrice envr sv t d b r)
                 = OneSplitCall # take (Suc (feedReadsSettled sv)) (fst (daiUsdPriceBN sv))"
      using assms feed
      by (simp add: getTokenOneSplitPrice_def take1_def catchError_def map_obs_def
          combineLatest_def fromPromise_def of_obs_def split: sum.splits)
    then show ?thesis by blast
  next
    case (Inr ret)
    then have "fst (getTokenOneSplitPrice envr sv t d b r)
                 = OneSplitCall # take (length cs) (fst (daiUsdPriceBN sv))"
      using assms feed
      by (simp add: getTokenOneSplitPrice_def take1_def catchError_def map_obs_def
          combineLatest_def fromPromise_def of_obs_def split: sum.splits)
    then show ?thesis by blast
  qed
qed

lemma getTokenOneSplitPrice_asks:
  assumes "t \<noteq> DAI_ADDRESS" "t \<noteq> SAI_ADDRESS"
  shows "OneSplitCall \<in> set (fst (getTokenOneSplitPrice envr sv t d b r))"
  using getTokenOneSplitPrice_calls [OF assms, of envr sv d b r] by auto

lemma getTokenOneSplitPrice_reads_all:
  assumes "t \<noteq> DAI_ADDRESS" "t \<noteq> SAI_ADDRESS"
    and "getExpectedReturn sv DAI_ADDRESS t (10 ^ 18) 10 zeroValueBN
           (oneSplitAddress_or_default envr r) b = Inr ret"
  shows "fst (getTokenOneSplitPrice envr sv t d b r) = OneSplitCall # fst (daiUsdPriceBN sv)"
proof -
  obtain cs f where feed: "daiUsdPriceBN sv = (cs, f)"
    by (cases "daiUsdPriceBN sv") auto
  show ?thesis
    using assms feed
    by (simp add: getTokenOneSplitPrice_def take1_def catchError_def map_obs_def
        combineLatest_def fromPromise_def of_obs_def split: sum.splits)
qed

lemma getTokenOneSplitPrice_reads_cut:
  assumes "t \<noteq> DAI_ADDRESS" "t \<noteq> SAI_ADDRESS"
    and "getExpectedReturn sv DAI_ADDRESS t (10 ^ 18) 10 zeroValueBN
           (oneSplitAddress_or_default envr r) b = Inl e"
  shows "fst (getTokenOneSplitPrice envr sv t d b r)
           = OneSplitCall # take (Suc (feedReadsSettled sv)) (fst (daiUsdPriceBN sv))"
proof -
  obtain cs f where feed: "daiUsdPriceBN sv = (cs, f)"
    by (cases "daiUsdPriceBN sv") auto
  show ?thesis
    using assms feed
    by (simp add: getTokenOneSplitPrice_def take1_def catchError_def map_obs_def
        combineLatest_def fromPromise_def of_obs_def split: sum.splits)
qed

lemma getTokenOneSplitPrice_succeeds:
  "\<exists>v. snd (getTokenOneSplitPrice envr sv t d b r) = Inr v"
  by (simp add: getTokenOneSplitPrice_def take1_def catchError_def map_obs_def combineLatest_def
      fromPromise_def of_obs_def Let_def split: prod.splits sum.splits)

lemma getTokenOneSplitPrice_implied:
  assumes "t \<noteq> DAI_ADDRESS" "t \<noteq> SAI_ADDRESS"
    and "getExpectedReturn sv DAI_ADDRESS t (10 ^ 18) 10 zeroValueBN
           (oneSplitAddress_or_default envr r) b = Inr ret"
    and "returnAmount ret \<noteq> 0"
    and "snd (daiUsdPriceBN sv) = Inr f"
  shows "snd (getTokenOneSplitPrice envr sv t d b r) =
           Inr (tdiv (tdiv (10 ^ d * 10 ^ 8 * f) (returnAmount ret)) (10 ^ 8))"
proof -
  obtain cs where feed: "daiUsdPriceBN sv = (cs, Inr f)"
    using assms(5) by (cases "daiUsdPriceBN sv") auto
  show ?thesis
    using assms(1-4)
    by (simp add: getTokenOneSplitPrice_def take1_def catchError_def map_obs_def
        combineLatest_def fromPromise_def of_obs_def bn_div_def feed)
qed

lemma getTokenOneSplitPrice_degrades:
  assumes "t \<noteq> DAI_ADDRESS" "t \<noteq> SAI_ADDRESS"
    and "(\<exists>e. getExpectedReturn sv DAI_ADDRESS t (10 ^ 18) 10 zeroValueBN
           (oneSplitAddress_or_default envr r) b = Inl e)
       \<or> (\<exists>ret. getExpectedReturn sv DAI_ADDRESS t (10 ^ 18) 10 zeroValueBN
           (oneSplitAddress_or_default envr r) b = Inr ret \<and> returnAmount ret = 0)
       \<or> (\<exists>e. snd (daiUsdPriceBN sv) = Inl e)"
  shows "snd (getTokenOneSplitPrice envr sv t d b r) = Inr zeroValueBN"
  using assms
  by (auto simp add: getTokenOneSplitPrice_def take1_def catchError_def map_obs_def combineLatest_def
      fromPromise_def of_obs_def bn_div_def Let_def split: prod.splits sum.splits)

lemma onChainPrice_helper_nonzero:
  assumes "snd (getTokenPriceFromHelper envr sv t d b r) = Inr v" "v \<noteq> 0"
  shows "onChainPrice envr sv t d b r = ([TokenHelperCall], Inr v)"
  using assms
  by (simp add: onChainPrice_def catchError_def mergeMap_def getTokenPriceFromHelper_eq
      of_obs_def throwError_def)

lemma onChainPrice_helper_unusable:
  assumes "(\<exists>e. snd (getTokenPriceFromHelper envr sv t d b r) = Inl e)
         \<or> snd (getTokenPriceFromHelper envr sv t d b r) = Inr 0"
  shows "onChainPrice envr sv t d b r =
           (TokenHelperCall # fst (getTokenOneSplitPrice envr sv t d b r),
            snd (getTokenOneSplitPrice envr sv t d b r))"
  using assms
  by (auto simp add: onChainPrice_def catchError_def mergeMap_def getTokenPriceFromHelper_eq
      of_obs_def throwError_def split: prod.splits)

lemma onChainPrice_resolved:
  "onChainPrice envr sv t d b (Some (oneSplitAddress_or_default envr r)) =
   onChainPrice envr sv t d b r"
  by (simp add: onChainPrice_def getTokenPriceFromHelper_resolved getTokenOneSplitPrice_resolved)

lemma onChainPrice_succeeds: "\<exists>v. snd (onChainPrice envr sv t d b r) = Inr v"
proof (cases "snd (getTokenPriceFromHelper envr sv t d b r)")
  case (Inl e)
  then show ?thesis
    using onChainPrice_helper_unusable [of envr sv t d b r] getTokenOneSplitPrice_succeeds [of envr sv t d b r]
    by auto
next
  case (Inr v)
  show ?thesis
  proof (cases "v = 0")
    case True
    with Inr show ?thesis
      using onChainPrice_helper_unusable [of envr sv t d b r] getTokenOneSplitPrice_succeeds [of envr sv t d b r]
      by auto
  next
    case False
    with Inr show ?thesis
      using onChainPrice_helper_nonzero [of envr sv t d b r v] by simp
  qed
qed

lemma offChainPrice_eq:
  "offChainPrice sv t =
     ([CoinGeckoCall], case getUSDPrice sv t of Inl e \<Rightarrow> Inl e | Inr p \<Rightarrow> parseUnits p 8)"
  by (simp add: offChainPrice_def map_obs_def fromPromise_def)

lemma getTokenPriceBN_onChain:
  "getTokenPriceBN envr sv t d b r False = onChainPrice envr sv t d b r"
  by (simp add: getTokenPriceBN_def onChainPrice_resolved)

lemma getTokenPriceBN_offChain_ok:
  assumes "snd (offChainPrice sv t) = Inr v"
  shows "getTokenPriceBN envr sv t d b r True = ([CoinGeckoCall], Inr v)"
  using assms
  by (simp add: getTokenPriceBN_def catchError_def offChainPrice_eq)

lemma getTokenPriceBN_offChain_failed:
  assumes "snd (offChainPrice sv t) = Inl e"
  shows "getTokenPriceBN envr sv t d b r True =
           (CoinGeckoCall # fst (onChainPrice envr sv t d b r), snd (onChainPrice envr sv t d b r))"
  using assms
  by (simp add: getTokenPriceBN_def catchError_def offChainPrice_eq onChainPrice_resolved
      split: prod.splits)

lemma getTokenPriceBN_succeeds: "\<exists>v. snd (getTokenPriceBN envr sv t d b r u) = Inr v"
proof (cases u)
  case False
  then show ?thesis using onChainPrice_succeeds [of envr sv t d b r]
    by (simp add: getTokenPriceBN_onChain)
next
  case True
  show ?thesis
  proof (cases "snd (offChainPrice sv t)")
    case (Inl e)
    with True show ?thesis
      using getTokenPriceBN_offChain_failed [of sv t e envr d b r] onChainPrice_succeeds [of envr sv t d b r]
      by simp
  next
    case (Inr v)
    with True show ?thesis
      using getTokenPriceBN_offChain_ok [of sv t v envr d b r] by simp
  qed
qed

lemma getTokenPriceBN_resolved:
  "getTokenPriceBN envr sv t d b (Some (oneSplitAddress_or_default envr r)) u =
   getTokenPriceBN envr sv t d b r u"
  by (simp add: getTokenPriceBN_def oneSplitAddress_or_default_idem)

subsection \<open>Retrying\<close>

lemma retry_all_fail:
  "(\<And>j. j \<le> n \<Longrightarrow> \<exists>e. f (k + j) = Inl e) \<Longrightarrow>
   retry n (\<lambda>i. fromPromise c (f i)) k = (replicate (Suc n) c, f (k + n))"
proof (induction n arbitrary: k)
  case 0
  then show ?case by (simp add: fromPromise_def)
next
  case (Suc n)
  from Suc.prems [of 0] obtain e where e: "f k = Inl e" by auto
  have "\<And>j. j \<le> n \<Longrightarrow> \<exists>e. f (Suc k + j) = Inl e"
    using Suc.prems [of "Suc _"] by simp
  from Suc.IH [OF this] e show ?case
    by (simp add: catchError_def fromPromise_def)
qed

lemma retry_first_success:
  "m \<le> n \<Longrightarrow> (\<And>j. j < m \<Longrightarrow> \<exists>e. f (k + j) = Inl e) \<Longrightarrow> f (k + m) = Inr v \<Longrightarrow>
   retry n (\<lambda>i. fromPromise c (f i)) k = (replicate (Suc m) c, Inr v)"
proof (induction n arbitrary: k m)
  case 0
  then show ?case by (simp add: fromPromise_def)
next
  case (Suc n)
  show ?case
  proof (cases m)
    case 0
    with Suc.prems show ?thesis by (simp add: catchError_def fromPromise_def)
  next
    case (Suc m')
    from Suc.prems(2) [of 0] Suc obtain e where e: "f k = Inl e" by auto
    have 1: "m' \<le> n" using Suc Suc.prems(1) by simp
    have 2: "\<And>j. j < m' \<Longrightarrow> \<exists>e. f (Suc k + j) = Inl e"
      using Suc.prems(2) [of "Suc _"] Suc by simp
    have 3: "f (Suc k + m') = Inr v" using Suc.prems(3) Suc by simp
    from Suc.IH [OF 1 2 3] e Suc show ?thesis
      by (simp add: catchError_def fromPromise_def)
  qed
qed

subsection \<open>The shared feed\<close>

lemma daiUsdPriceBN_replay:
  "share_replayed (feedSubject sv) = Some v \<Longrightarrow> daiUsdPriceBN sv = ([], Inr v)"
  by (simp add: daiUsdPriceBN_def shareReplay_def)

lemma daiUsdPriceBN_fresh:
  "share_replayed (feedSubject sv) = None \<Longrightarrow>
   daiUsdPriceBN sv = retry 5 (\<lambda>k. fromPromise ChainLinkCall (latestAnswer sv k)) 0"
  by (simp add: daiUsdPriceBN_def shareReplay_def)

lemma teardown_all_live:
  "refCount s = n \<Longrightarrow> 0 < n \<Longrightarrow> subscription s \<Longrightarrow> \<not> isComplete s \<Longrightarrow>
   (share_teardown ^^ n) s = s\<lparr>refCount := 0, subscription := False, replaySubject := None\<rparr>"
proof (induction n arbitrary: s)
  case 0
  then show ?case by simp
next
  case (Suc n)
  show ?case
  proof (cases n)
    case 0
    with Suc.prems show ?thesis by (simp add: share_teardown_def)
  next
    case (Suc m)
    have step: "share_teardown s = s\<lparr>refCount := n\<rparr>"
      using Suc.prems Suc by (simp add: share_teardown_def)
    have "(share_teardown ^^ n) (s\<lparr>refCount := n\<rparr>)
            = (s\<lparr>refCount := n\<rparr>)\<lparr>refCount := 0, subscription := False, replaySubject := None\<rparr>"
      using Suc.prems Suc by (intro Suc.IH) simp_all
    then show ?thesis
      using step by (simp add: funpow_swap1)
  qed
qed

lemma teardown_all_idle:
  "\<not> subscription s \<Longrightarrow> (share_teardown ^^ n) s = s\<lparr>refCount := refCount s - n\<rparr>"
proof (induction n arbitrary: s)
  case 0
  then show ?case by simp
next
  case (Suc n)
  have step: "share_teardown s = s\<lparr>refCount := refCount s - 1\<rparr>"
    using Suc.prems by (simp add: share_teardown_def)
  have "(share_teardown ^^ n) (s\<lparr>refCount := refCount s - 1\<rparr>)
          = (s\<lparr>refCount := refCount s - 1\<rparr>)\<lparr>refCount := refCount (s\<lparr>refCount := refCount s - 1\<rparr>) - n\<rparr>"
    using Suc.prems by (intro Suc.IH) simp
  then show ?case
    using step by (simp add: funpow_swap1)
qed

lemma share_error_eq:
  "share_inv s \<Longrightarrow> subscription s \<Longrightarrow>
   share_error s = s\<lparr>hasError := True, refCount := 0, subscription := False, replaySubject := None\<rparr>"
  using teardown_all_live [of "s\<lparr>hasError := True\<rparr>" "refCount s"]
  by (simp add: share_error_def share_inv_def)

lemma share_complete_eq:
  "share_complete s = s\<lparr>isComplete := True, subscription := False, refCount := 0\<rparr>"
  using teardown_all_idle [of "s\<lparr>isComplete := True, subscription := False\<rparr>" "refCount s"]
  by (simp add: share_complete_def)

lemma share_inv_initial: "share_inv share_initial"
  by (simp add: share_inv_def share_initial_def)

lemma share_step_inv: "share_inv s \<Longrightarrow> share_inv (share_step s e)"
proof (cases e)
  case Subscribe
  assume "share_inv s"
  then show ?thesis using Subscribe
    by (auto simp add: share_inv_def share_subscribe_def Let_def)
next
  case Unsubscribe
  assume "share_inv s"
  then show ?thesis using Unsubscribe
    by (auto simp add: share_inv_def share_teardown_def Let_def)
next
  case (SourceNext v)
  assume "share_inv s"
  then show ?thesis using SourceNext
    by (auto simp add: share_inv_def share_next_def split: option.splits)
next
  case SourceError
  assume inv: "share_inv s"
  show ?thesis
  proof (cases "subscription s")
    case True
    with inv SourceError show ?thesis
      by (simp add: share_error_eq) (simp add: share_inv_def)
  next
    case False
    with inv SourceError show ?thesis by simp
  qed
next
  case SourceComplete
  assume "share_inv s"
  then show ?thesis using SourceComplete
    by (auto simp add: share_inv_def share_complete_eq)
qed

lemma share_run_inv: "share_inv s \<Longrightarrow> share_inv (share_run s es)"
  unfolding share_run_def
  by (induction es arbitrary: s) (simp_all add: share_step_inv)

lemma share_run_snoc: "share_run s (es @ [e]) = share_step (share_run s es) e"
  by (simp add: share_run_def)

lemma share_subscribe_shared:
  "share_inv s \<Longrightarrow> subscription s \<Longrightarrow>
   sourceSubscriptions (share_subscribe s) = sourceSubscriptions s
   \<and> subscription (share_subscribe s) \<and> refCount (share_subscribe s) = Suc (refCount s)"
  by (auto simp add: share_inv_def share_subscribe_def Let_def)

lemma share_subscribe_kept:
  "replaySubject s = Some buffer \<Longrightarrow> \<not> hasError s \<Longrightarrow>
   sourceSubscriptions (share_subscribe s) = sourceSubscriptions s
   \<and> share_replayed s = buffer"
  by (simp add: share_subscribe_def share_replayed_def Let_def)

lemma share_subscribe_opens:
  "replaySubject s = None \<or> hasError s \<Longrightarrow>
   sourceSubscriptions (share_subscribe s) = Suc (sourceSubscriptions s)
   \<and> subscription (share_subscribe s) \<and> share_replayed s = None"
  by (auto simp add: share_subscribe_def share_replayed_def Let_def)

lemma share_teardown_last:
  "refCount s = 1 \<Longrightarrow> subscription s \<Longrightarrow> \<not> isComplete s \<Longrightarrow>
   replaySubject (share_teardown s) = None \<and> \<not> subscription (share_teardown s)"
  by (simp add: share_teardown_def Let_def)

subsection \<open>The cache\<close>

lemma getUsdTokenPrice_hit:
  "usdPriceCache st t = Some s \<Longrightarrow> getUsdTokenPrice envr st t d b r = (s, st)"
  by (simp add: getUsdTokenPrice_def)

lemma getUsdTokenPrice_miss:
  "usdPriceCache st t = None \<Longrightarrow>
   getUsdTokenPrice envr st t d b r =
     (\<lparr>subject_id = subjects_created st,
       factory = (\<lambda>sv. getTokenPriceBN envr sv t d b (Some (oneSplitAddress_or_default envr r)) True),
       period = 10000\<rparr>,
      st\<lparr>usdPriceCache := (usdPriceCache st)
             (t \<mapsto> \<lparr>subject_id = subjects_created st,
                    factory = (\<lambda>sv. getTokenPriceBN envr sv t d b
                                       (Some (oneSplitAddress_or_default envr r)) True),
                    period = 10000\<rparr>),
          subjects_created := Suc (subjects_created st),
          pipelines_built := Suc (pipelines_built st)\<rparr>)"
  by (simp add: getUsdTokenPrice_def Let_def)

lemma getUsdTokenPrice_keeps:
  "usdPriceCache st k = Some s \<Longrightarrow>
   usdPriceCache (snd (getUsdTokenPrice envr st t d b r)) k = Some s"
  by (cases "usdPriceCache st t") (auto simp add: getUsdTokenPrice_miss getUsdTokenPrice_hit)

lemma run_requests_keeps:
  "usdPriceCache st k = Some s \<Longrightarrow> usdPriceCache (run_requests envr st rs) k = Some s"
proof (induction rs arbitrary: st)
  case Nil
  then show ?case by simp
next
  case (Cons q rs)
  obtain t d b r where q: "q = (t, d, b, r)" by (cases q) auto
  have "usdPriceCache (snd (getUsdTokenPrice envr st t d b r)) k = Some s"
    using Cons.prems by (rule getUsdTokenPrice_keeps)
  then show ?case using Cons.IH q by simp
qed

lemma getUsdTokenPrice_factory_total:
  assumes "\<And>k s sv. usdPriceCache st k = Some s \<Longrightarrow> \<exists>v. snd (factory s sv) = Inr v"
  shows "\<exists>v. snd (factory (fst (getUsdTokenPrice envr st t d b r)) sv) = Inr v"
    and "usdPriceCache (snd (getUsdTokenPrice envr st t d b r)) k = Some s
         \<Longrightarrow> \<exists>v. snd (factory s sv) = Inr v"
proof -
  show "\<exists>v. snd (factory (fst (getUsdTokenPrice envr st t d b r)) sv) = Inr v"
  proof (cases "usdPriceCache st t")
    case None
    then show ?thesis
      using getTokenPriceBN_succeeds [of envr sv t d b "Some (oneSplitAddress_or_default envr r)" True]
      by (simp add: getUsdTokenPrice_miss)
  next
    case (Some s0)
    then show ?thesis using assms [of t s0 sv] by (simp add: getUsdTokenPrice_hit)
  qed
  show "\<exists>v. snd (factory s sv) = Inr v"
    if "usdPriceCache (snd (getUsdTokenPrice envr st t d b r)) k = Some s"
  proof (cases "usdPriceCache st t")
    case None
    show ?thesis
    proof (cases "k = t")
      case True
      with None that show ?thesis
        using getTokenPriceBN_succeeds [of envr sv t d b "Some (oneSplitAddress_or_default envr r)" True]
        by (auto simp add: getUsdTokenPrice_miss)
    next
      case False
      with None that have "usdPriceCache st k = Some s"
        by (simp add: getUsdTokenPrice_miss)
      then show ?thesis by (rule assms)
    qed
  next
    case (Some s0)
    with that have "usdPriceCache st k = Some s" by (simp add: getUsdTokenPrice_hit)
    then show ?thesis by (rule assms)
  qed
qed

lemma run_requests_factory_total:
  assumes "\<And>k s sv. usdPriceCache st k = Some s \<Longrightarrow> \<exists>v. snd (factory s sv) = Inr v"
  shows "usdPriceCache (run_requests envr st rs) k = Some s \<Longrightarrow> \<exists>v. snd (factory s sv) = Inr v"
  using assms
proof (induction rs arbitrary: st)
  case Nil
  then show ?case by simp
next
  case (Cons q rs)
  obtain t d b r where q: "q = (t, d, b, r)" by (cases q) auto
  have step: "\<And>k s sv. usdPriceCache (snd (getUsdTokenPrice envr st t d b r)) k = Some s
                \<Longrightarrow> \<exists>v. snd (factory s sv) = Inr v"
    using getUsdTokenPrice_factory_total(2) [of st envr t d b r] Cons.prems(2) by blast
  show ?case
    using Cons.IH [of "snd (getUsdTokenPrice envr st t d b r)"] Cons.prems(1) step q
    by simp
qed

lemma cached_factory_total:
  "\<exists>v. snd (factory (fst (getUsdTokenPrice envr (run_requests envr initial_state rs) t d b r)) sv)
        = Inr v"
proof (rule getUsdTokenPrice_factory_total(1))
  fix k s sv'
  assume "usdPriceCache (run_requests envr initial_state rs) k = Some s"
  then show "\<exists>v. snd (factory s sv') = Inr v"
    by (rule run_requests_factory_total [rotated]) (simp add: initial_state_def)
qed

subsection \<open>Facts about the example collaborators\<close>

lemma WETH_not_stable: "WETH_ADDRESS \<noteq> DAI_ADDRESS" "WETH_ADDRESS \<noteq> SAI_ADDRESS"
  by (simp_all add: WETH_ADDRESS_def DAI_ADDRESS_def SAI_ADDRESS_def)

lemma feed_swap: "snd (daiUsdPriceBN sv_swap) = Inr (10 ^ 8)"
  by (simp add: daiUsdPriceBN_def shareReplay_def share_replayed_def share_initial_def sv_swap_def
      eval_nat_numeral catchError_def fromPromise_def)


lemma offChain_099: "snd (offChainPrice (sv_offchain ''0.99'') DAI_ADDRESS) = Inr 99000000"
  by code_simp

lemma offChain_all_fail: "snd (offChainPrice sv_all_fail t) = Inl AdapterFailure"
  by (simp add: offChainPrice_eq sv_all_fail_def)

lemma offChain_helper_only: "snd (offChainPrice (sv_helper v) t) = Inl AdapterFailure"
  by (simp add: offChainPrice_eq sv_helper_def sv_all_fail_def)

lemma offChain_zero_quote: "snd (offChainPrice sv_zero_quote t) = Inl AdapterFailure"
  by (simp add: offChainPrice_eq sv_zero_quote_def sv_swap_def)

lemma helper_all_fail: "snd (getTokenPriceFromHelper envr sv_all_fail t d b r) = Inl AdapterFailure"
  by (simp add: getTokenPriceFromHelper_eq sv_all_fail_def)

lemma helper_helper_only: "snd (getTokenPriceFromHelper envr (sv_helper v) t d b r) = Inr v"
  by (simp add: getTokenPriceFromHelper_eq sv_helper_def sv_all_fail_def)

lemma helper_zero_quote: "snd (getTokenPriceFromHelper envr sv_zero_quote t d b r) = Inr 0"
  by (simp add: getTokenPriceFromHelper_eq sv_zero_quote_def sv_swap_def)

lemma WETH_zero_quote:
  "getExpectedReturn sv_zero_quote DAI_ADDRESS WETH_ADDRESS (10 ^ 18) 10 zeroValueBN
     (oneSplitAddress_or_default env_example None) None
   = Inr \<lparr>returnAmount = 0, distribution = []\<rparr>"
  by (simp add: sv_zero_quote_def sv_swap_def)

lemma chain_swap_WETH:
  "getTokenPriceBN env_example sv_swap WETH_ADDRESS 18 None None True
     = ([CoinGeckoCall, TokenHelperCall, OneSplitCall, ChainLinkCall], Inr 200000000)"
  by code_simp

section \<open>The claims\<close>

subsection \<open>C1: the stablecoin addresses and the whole chain\<close>

text \<open>
  C1 as stated fails. For \<^verbatim>\<open>DAI_ADDRESS\<close>, with the off-chain API quoting \<open>0.99\<close>,
  \<^verbatim>\<open>getTokenPriceBN\<close> (off-chain preferred) delivers \<open>99000000\<close>, not \<open>10^8\<close>: the
  off-chain price is taken before the stablecoin check is ever reached.
\<close>

theorem stablecoin_not_always_one_counterexample:
  "getTokenPriceBN env_example (sv_offchain ''0.99'') DAI_ADDRESS 18 None None True
     = ([CoinGeckoCall], Inr 99000000)
   \<and> snd (getTokenPriceBN env_example (sv_offchain ''0.99'') DAI_ADDRESS 18 None None True)
     \<noteq> Inr (10 ^ 8)"
  using getTokenPriceBN_offChain_ok [OF offChain_099, of env_example 18 None None]
  by simp

text \<open>
  C1, amended. For a token address equal to \<^verbatim>\<open>DAI_ADDRESS\<close> or \<^verbatim>\<open>SAI_ADDRESS\<close>,
  \<^verbatim>\<open>getTokenOneSplitPrice\<close> delivers exactly \<open>10^8\<close> and reads nothing, whatever the
  collaborators do. \<^verbatim>\<open>getTokenPriceBN\<close> delivers \<open>10^8\<close> for such a token whenever the
  helper read fails or returns zero and the off-chain price is not used: either it is
  not preferred, or its pipeline failed (the fetch failed or \<^verbatim>\<open>parseUnits\<close> raised).
  When the off-chain price is preferred and delivered, it is the result instead; and
  when the helper returns a value that is not zero and the off-chain price is not
  used, the helper's value is the result instead.
\<close>

theorem stablecoin_price_is_one:
  assumes "t = DAI_ADDRESS \<or> t = SAI_ADDRESS"
  shows "getTokenOneSplitPrice envr sv t d b r = ([], Inr (10 ^ 8))
       \<and> ((\<exists>e. snd (getTokenPriceFromHelper envr sv t d b r) = Inl e)
            \<or> snd (getTokenPriceFromHelper envr sv t d b r) = Inr 0
          \<longrightarrow> snd (getTokenPriceBN envr sv t d b r False) = Inr (10 ^ 8)
            \<and> ((\<exists>e. snd (offChainPrice sv t) = Inl e)
                 \<longrightarrow> snd (getTokenPriceBN envr sv t d b r True) = Inr (10 ^ 8)))
       \<and> (\<forall>v. snd (offChainPrice sv t) = Inr v
            \<longrightarrow> snd (getTokenPriceBN envr sv t d b r True) = Inr v)
       \<and> (\<forall>v. snd (getTokenPriceFromHelper envr sv t d b r) = Inr v \<and> v \<noteq> 0
            \<longrightarrow> snd (getTokenPriceBN envr sv t d b r False) = Inr v
              \<and> ((\<exists>e. snd (offChainPrice sv t) = Inl e)
                   \<longrightarrow> snd (getTokenPriceBN envr sv t d b r True) = Inr v))"
proof -
  have one: "getTokenOneSplitPrice envr sv t d b r = ([], Inr (10 ^ 8))"
    using assms by (rule getTokenOneSplitPrice_stable)
  have unusable: "snd (onChainPrice envr sv t d b r) = Inr (10 ^ 8)"
    if "(\<exists>e. snd (getTokenPriceFromHelper envr sv t d b r) = Inl e)
        \<or> snd (getTokenPriceFromHelper envr sv t d b r) = Inr 0"
    using onChainPrice_helper_unusable [OF that] one by simp
  have usable: "snd (onChainPrice envr sv t d b r) = Inr v"
    if "snd (getTokenPriceFromHelper envr sv t d b r) = Inr v" "v \<noteq> 0" for v
    using onChainPrice_helper_nonzero [OF that] by simp
  have off: "snd (getTokenPriceBN envr sv t d b r True) = Inr v"
    if "snd (offChainPrice sv t) = Inr v" for v
    using getTokenPriceBN_offChain_ok [OF that, of envr d b r] by simp
  have fallback: "snd (getTokenPriceBN envr sv t d b r True) = snd (onChainPrice envr sv t d b r)"
    if "snd (offChainPrice sv t) = Inl e" for e
    using getTokenPriceBN_offChain_failed [OF that, of envr d b r] by simp
  show ?thesis
    using one unusable usable off fallback
    by (auto simp add: getTokenPriceBN_onChain)
qed

text \<open>
  For \<^verbatim>\<open>DAI_ADDRESS\<close>: every collaborator failing gives \<open>10^8\<close>; an off-chain price of
  \<open>0.99\<close> gives \<open>99000000\<close>; a helper value of \<open>100120000\<close> gives that value.
\<close>

theorem stablecoin_price_is_one_witness:
  "snd (getTokenPriceFromHelper env_example sv_all_fail DAI_ADDRESS 18 None None) = Inl AdapterFailure
   \<and> snd (offChainPrice sv_all_fail DAI_ADDRESS) = Inl AdapterFailure
   \<and> getTokenOneSplitPrice env_example sv_all_fail DAI_ADDRESS 18 None None = ([], Inr (10 ^ 8))
   \<and> snd (getTokenPriceBN env_example sv_all_fail DAI_ADDRESS 18 None None False) = Inr (10 ^ 8)
   \<and> snd (getTokenPriceBN env_example sv_all_fail DAI_ADDRESS 18 None None True) = Inr (10 ^ 8)
   \<and> snd (offChainPrice (sv_offchain ''0.99'') DAI_ADDRESS) = Inr 99000000
   \<and> snd (getTokenPriceBN env_example (sv_offchain ''0.99'') DAI_ADDRESS 18 None None True)
       = Inr 99000000
   \<and> snd (getTokenPriceFromHelper env_example (sv_helper 100120000) DAI_ADDRESS 18 None None)
       = Inr 100120000
   \<and> snd (offChainPrice (sv_helper 100120000) DAI_ADDRESS) = Inl AdapterFailure
   \<and> snd (getTokenPriceBN env_example (sv_helper 100120000) DAI_ADDRESS 18 None None False)
       = Inr 100120000
   \<and> snd (getTokenPriceBN env_example (sv_helper 100120000) DAI_ADDRESS 18 None None True)
       = Inr 100120000"
proof -
  have a: "snd (getTokenPriceBN env_example sv_all_fail DAI_ADDRESS 18 None None False) = Inr (10 ^ 8)
      \<and> snd (getTokenPriceBN env_example sv_all_fail DAI_ADDRESS 18 None None True) = Inr (10 ^ 8)
      \<and> getTokenOneSplitPrice env_example sv_all_fail DAI_ADDRESS 18 None None = ([], Inr (10 ^ 8))"
    using stablecoin_price_is_one [of DAI_ADDRESS env_example sv_all_fail 18 None None]
      helper_all_fail [of env_example DAI_ADDRESS 18 None None] offChain_all_fail [of DAI_ADDRESS]
    by simp
  have b: "snd (getTokenPriceBN env_example (sv_offchain ''0.99'') DAI_ADDRESS 18 None None True)
       = Inr 99000000"
    using stablecoin_price_is_one [of DAI_ADDRESS env_example "sv_offchain ''0.99''" 18 None None]
      offChain_099
    by simp
  have c: "snd (getTokenPriceBN env_example (sv_helper 100120000) DAI_ADDRESS 18 None None False)
       = Inr 100120000
      \<and> snd (getTokenPriceBN env_example (sv_helper 100120000) DAI_ADDRESS 18 None None True)
       = Inr 100120000"
    using stablecoin_price_is_one [of DAI_ADDRESS env_example "sv_helper 100120000" 18 None None]
      helper_helper_only [of env_example 100120000 DAI_ADDRESS 18 None None]
      offChain_helper_only [of 100120000 DAI_ADDRESS]
    by simp
  show ?thesis
    using a b c helper_all_fail [of env_example DAI_ADDRESS 18 None None]
      offChain_all_fail [of DAI_ADDRESS] offChain_099
      helper_helper_only [of env_example 100120000 DAI_ADDRESS 18 None None]
      offChain_helper_only [of 100120000 DAI_ADDRESS]
    by simp
qed

subsection \<open>C2: what is read for a stablecoin address\<close>

text \<open>
  C2 as stated fails. For \<^verbatim>\<open>DAI_ADDRESS\<close>, with the off-chain fetch failing and the
  helper valuing the token at \<open>100120000\<close>, the helper is read and its value is the
  result: the stablecoin check sits in \<^verbatim>\<open>getTokenOneSplitPrice\<close>, after the helper.
\<close>

theorem stablecoin_helper_is_read_counterexample:
  "snd (offChainPrice (sv_helper 100120000) DAI_ADDRESS) = Inl AdapterFailure
   \<and> getTokenPriceBN env_example (sv_helper 100120000) DAI_ADDRESS 18 None None True
       = ([CoinGeckoCall, TokenHelperCall], Inr 100120000)
   \<and> TokenHelperCall \<in> set (fst (getTokenPriceBN env_example (sv_helper 100120000) DAI_ADDRESS 18 None None True))
   \<and> snd (getTokenPriceBN env_example (sv_helper 100120000) DAI_ADDRESS 18 None None True) \<noteq> Inr (10 ^ 8)"
proof -
  have off: "snd (offChainPrice (sv_helper 100120000) DAI_ADDRESS) = Inl AdapterFailure"
    by (rule offChain_helper_only)
  have "onChainPrice env_example (sv_helper 100120000) DAI_ADDRESS 18 None None
          = ([TokenHelperCall], Inr 100120000)"
    by (rule onChainPrice_helper_nonzero [OF helper_helper_only]) simp
  with getTokenPriceBN_offChain_failed [OF off, of env_example 18 None None] off
  show ?thesis by simp
qed

text \<open>
  C2, amended. When the off-chain pipeline has failed and the token is \<^verbatim>\<open>DAI_ADDRESS\<close>
  or \<^verbatim>\<open>SAI_ADDRESS\<close>, the chain reads the off-chain API and then the helper, exactly
  once each, and never the aggregator or the reference feed. The result is \<open>10^8\<close> if
  the helper read fails or returns zero, and the helper's value if that is not zero.
\<close>

theorem stablecoin_fallback_reads:
  assumes "t = DAI_ADDRESS \<or> t = SAI_ADDRESS"
    and "snd (offChainPrice sv t) = Inl e"
  shows "fst (getTokenPriceBN envr sv t d b r True) = [CoinGeckoCall, TokenHelperCall]
       \<and> OneSplitCall \<notin> set (fst (getTokenPriceBN envr sv t d b r True))
       \<and> ChainLinkCall \<notin> set (fst (getTokenPriceBN envr sv t d b r True))
       \<and> ((\<exists>e'. snd (getTokenPriceFromHelper envr sv t d b r) = Inl e')
            \<or> snd (getTokenPriceFromHelper envr sv t d b r) = Inr 0
          \<longrightarrow> snd (getTokenPriceBN envr sv t d b r True) = Inr (10 ^ 8))
       \<and> (\<forall>v. snd (getTokenPriceFromHelper envr sv t d b r) = Inr v \<and> v \<noteq> 0
          \<longrightarrow> snd (getTokenPriceBN envr sv t d b r True) = Inr v)"
proof -
  note chain = getTokenPriceBN_offChain_failed [OF assms(2), of envr d b r]
  have one: "getTokenOneSplitPrice envr sv t d b r = ([], Inr (10 ^ 8))"
    using assms(1) by (rule getTokenOneSplitPrice_stable)
  have unusable: "onChainPrice envr sv t d b r = ([TokenHelperCall], Inr (10 ^ 8))"
    if "(\<exists>e'. snd (getTokenPriceFromHelper envr sv t d b r) = Inl e')
        \<or> snd (getTokenPriceFromHelper envr sv t d b r) = Inr 0"
    using onChainPrice_helper_unusable [OF that] one by simp
  have usable: "onChainPrice envr sv t d b r = ([TokenHelperCall], Inr v)"
    if "snd (getTokenPriceFromHelper envr sv t d b r) = Inr v" "v \<noteq> 0" for v
    using that by (rule onChainPrice_helper_nonzero)
  have calls: "fst (onChainPrice envr sv t d b r) = [TokenHelperCall]"
  proof (cases "snd (getTokenPriceFromHelper envr sv t d b r)")
    case (Inl e')
    then show ?thesis using unusable by simp
  next
    case (Inr v)
    then show ?thesis using unusable usable [of v] by (cases "v = 0") simp_all
  qed
  show ?thesis
    using chain calls unusable usable by auto
qed

text \<open>
  For \<^verbatim>\<open>SAI_ADDRESS\<close> with every collaborator failing: two reads, then \<open>10^8\<close>.
\<close>

theorem stablecoin_fallback_reads_witness:
  "snd (offChainPrice sv_all_fail SAI_ADDRESS) = Inl AdapterFailure
   \<and> snd (getTokenPriceFromHelper env_example sv_all_fail SAI_ADDRESS 18 None None) = Inl AdapterFailure
   \<and> getTokenPriceBN env_example sv_all_fail SAI_ADDRESS 18 None None True
       = ([CoinGeckoCall, TokenHelperCall], Inr (10 ^ 8))"
  using stablecoin_fallback_reads [of SAI_ADDRESS sv_all_fail AdapterFailure env_example 18 None None]
    helper_all_fail [of env_example SAI_ADDRESS 18 None None] offChain_all_fail [of SAI_ADDRESS]
  by (cases "getTokenPriceBN env_example sv_all_fail SAI_ADDRESS 18 None None True") simp

subsection \<open>C3: the order of the fallback chain\<close>

text \<open>
  C3 as stated fails twice. First, an off-chain fetch that succeeds does not always
  end the chain: the price \<open>0.0000001\<close> has the text \<^verbatim>\<open>1e-7\<close>, \<^verbatim>\<open>parseUnits\<close> raises on
  it, and the helper is read. Second, "for every token" includes \<^verbatim>\<open>DAI_ADDRESS\<close>: with
  the off-chain fetch failing, the helper returning zero and an aggregator that quotes
  a return of 0, the result is \<open>10^8\<close>, not the zero sentinel.
\<close>

theorem fallback_order_counterexample:
  "getUSDPrice sv_tiny_price WETH_ADDRESS = Inr ''1e-7''
   \<and> parseUnits ''1e-7'' 8 = Inl InvalidArgument
   \<and> getTokenPriceBN env_example sv_tiny_price WETH_ADDRESS 18 None None True
       = ([CoinGeckoCall, TokenHelperCall], Inr 10)
   \<and> snd (offChainPrice sv_zero_quote DAI_ADDRESS) = Inl AdapterFailure
   \<and> snd (getTokenPriceFromHelper env_example sv_zero_quote DAI_ADDRESS 18 None None) = Inr 0
   \<and> getExpectedReturn sv_zero_quote DAI_ADDRESS DAI_ADDRESS (10 ^ 18) 10 zeroValueBN
        (oneSplitAddress_or_default env_example None) None
       = Inr \<lparr>returnAmount = 0, distribution = []\<rparr>
   \<and> snd (getTokenPriceBN env_example sv_zero_quote DAI_ADDRESS 18 None None True) = Inr (10 ^ 8)
   \<and> Inr (10 ^ 8) \<noteq> (Inr zeroValueBN :: error + int)"
  by code_simp

text \<open>
  C3, amended. With the off-chain source preferred, for every token: if the off-chain
  fetch succeeds with a price whose text \<^verbatim>\<open>parseUnits\<close> accepts at 8 decimals, the
  result is that value and only the off-chain API is read; if the off-chain pipeline
  fails and the helper returns a value that is not zero, the result is that value and
  only the off-chain API and the helper are read; if the off-chain pipeline fails, the
  helper fails or returns zero, the token is neither stablecoin address and the
  aggregator quotes a return of 0, the result is the zero sentinel.
\<close>

theorem fallback_order:
  "(\<forall>p v. getUSDPrice sv t = Inr p \<and> parseUnits p 8 = Inr v
      \<longrightarrow> getTokenPriceBN envr sv t d b r True = ([CoinGeckoCall], Inr v))
   \<and> (\<forall>e v. snd (offChainPrice sv t) = Inl e
            \<and> snd (getTokenPriceFromHelper envr sv t d b r) = Inr v \<and> v \<noteq> 0
      \<longrightarrow> getTokenPriceBN envr sv t d b r True = ([CoinGeckoCall, TokenHelperCall], Inr v))
   \<and> (\<forall>e ret. snd (offChainPrice sv t) = Inl e
            \<and> ((\<exists>e'. snd (getTokenPriceFromHelper envr sv t d b r) = Inl e')
                 \<or> snd (getTokenPriceFromHelper envr sv t d b r) = Inr 0)
            \<and> t \<noteq> DAI_ADDRESS \<and> t \<noteq> SAI_ADDRESS
            \<and> getExpectedReturn sv DAI_ADDRESS t (10 ^ 18) 10 zeroValueBN
                 (oneSplitAddress_or_default envr r) b = Inr ret
            \<and> returnAmount ret = 0
      \<longrightarrow> snd (getTokenPriceBN envr sv t d b r True) = Inr zeroValueBN)"
proof -
  have a: "getTokenPriceBN envr sv t d b r True = ([CoinGeckoCall], Inr v)"
    if "getUSDPrice sv t = Inr p" "parseUnits p 8 = Inr v" for p v
  proof -
    have "snd (offChainPrice sv t) = Inr v" using that by (simp add: offChainPrice_eq)
    then show ?thesis by (rule getTokenPriceBN_offChain_ok)
  qed
  have b: "getTokenPriceBN envr sv t d b r True = ([CoinGeckoCall, TokenHelperCall], Inr v)"
    if "snd (offChainPrice sv t) = Inl e"
      "snd (getTokenPriceFromHelper envr sv t d b r) = Inr v" "v \<noteq> 0" for e v
    using getTokenPriceBN_offChain_failed [OF that(1), of envr d b r]
      onChainPrice_helper_nonzero [OF that(2,3)]
    by simp
  have c: "snd (getTokenPriceBN envr sv t d b r True) = Inr zeroValueBN"
    if "snd (offChainPrice sv t) = Inl e"
      "(\<exists>e'. snd (getTokenPriceFromHelper envr sv t d b r) = Inl e')
         \<or> snd (getTokenPriceFromHelper envr sv t d b r) = Inr 0"
      "t \<noteq> DAI_ADDRESS" "t \<noteq> SAI_ADDRESS"
      "getExpectedReturn sv DAI_ADDRESS t (10 ^ 18) 10 zeroValueBN
                 (oneSplitAddress_or_default envr r) b = Inr ret"
      "returnAmount ret = 0" for e ret
  proof -
    have "snd (getTokenOneSplitPrice envr sv t d b r) = Inr zeroValueBN"
      using getTokenOneSplitPrice_degrades [OF that(3,4), of sv envr r b d] that(5,6) by blast
    then show ?thesis
      using getTokenPriceBN_offChain_failed [OF that(1), of envr d b r]
        onChainPrice_helper_unusable [OF that(2)]
      by simp
  qed
  from a b c show ?thesis by blast
qed

text \<open>
  One run for each of the three stages.
\<close>

theorem fallback_order_witness:
  "getUSDPrice (sv_offchain ''0.99'') WETH_ADDRESS = Inr ''0.99''
   \<and> parseUnits ''0.99'' 8 = Inr 99000000
   \<and> getTokenPriceBN env_example (sv_offchain ''0.99'') WETH_ADDRESS 18 None None True
       = ([CoinGeckoCall], Inr 99000000)
   \<and> snd (offChainPrice (sv_helper 250000000) WETH_ADDRESS) = Inl AdapterFailure
   \<and> snd (getTokenPriceFromHelper env_example (sv_helper 250000000) WETH_ADDRESS 18 None None)
       = Inr 250000000
   \<and> getTokenPriceBN env_example (sv_helper 250000000) WETH_ADDRESS 18 None None True
       = ([CoinGeckoCall, TokenHelperCall], Inr 250000000)
   \<and> snd (offChainPrice sv_zero_quote WETH_ADDRESS) = Inl AdapterFailure
   \<and> snd (getTokenPriceFromHelper env_example sv_zero_quote WETH_ADDRESS 18 None None) = Inr 0
   \<and> snd (getTokenPriceBN env_example sv_zero_quote WETH_ADDRESS 18 None None True)
       = Inr zeroValueBN"
proof -
  have p1: "getUSDPrice (sv_offchain ''0.99'') WETH_ADDRESS = Inr ''0.99''"
    by (simp add: sv_offchain_def sv_all_fail_def)
  have p2: "parseUnits ''0.99'' 8 = Inr 99000000" by code_simp
  have r1: "getTokenPriceBN env_example (sv_offchain ''0.99'') WETH_ADDRESS 18 None None True
       = ([CoinGeckoCall], Inr 99000000)"
    using fallback_order [of "sv_offchain ''0.99''" WETH_ADDRESS env_example 18 None None] p1 p2
    by blast
  have r2: "getTokenPriceBN env_example (sv_helper 250000000) WETH_ADDRESS 18 None None True
       = ([CoinGeckoCall, TokenHelperCall], Inr 250000000)"
    using fallback_order [of "sv_helper 250000000" WETH_ADDRESS env_example 18 None None]
      offChain_helper_only [of 250000000 WETH_ADDRESS]
      helper_helper_only [of env_example 250000000 WETH_ADDRESS 18 None None]
    by simp
  have r3: "snd (getTokenPriceBN env_example sv_zero_quote WETH_ADDRESS 18 None None True)
       = Inr zeroValueBN"
    using fallback_order [of sv_zero_quote WETH_ADDRESS env_example 18 None None]
      offChain_zero_quote [of WETH_ADDRESS]
      helper_zero_quote [of env_example WETH_ADDRESS 18 None None]
      WETH_not_stable WETH_zero_quote
    by simp
  show ?thesis
    using p1 p2 r1 r2 r3 offChain_helper_only [of 250000000 WETH_ADDRESS]
      helper_helper_only [of env_example 250000000 WETH_ADDRESS 18 None None]
      offChain_zero_quote [of WETH_ADDRESS]
      helper_zero_quote [of env_example WETH_ADDRESS 18 None None]
    by simp
qed

subsection \<open>C4: the implied price\<close>

text \<open>
  C4. For a token that is neither hardcoded stablecoin address, with decimals \<open>d\<close>, an
  aggregator quote whose \<open>returnAmount\<close> is \<open>r \<noteq> 0\<close> and a reference feed value \<open>f\<close>,
  \<^verbatim>\<open>getTokenOneSplitPrice\<close> delivers \<open>10^d * 10^8 * f / r / 10^8\<close>, both divisions
  truncating toward zero and applied in this order. For \<open>d = 18\<close>, \<open>r = 5 * 10^17\<close> and
  \<open>f = 10^8\<close> this is \<open>2 * 10^8\<close>.
\<close>

theorem implied_price_formula:
  assumes "t \<noteq> DAI_ADDRESS" and "t \<noteq> SAI_ADDRESS"
    and "getExpectedReturn sv DAI_ADDRESS t (10 ^ 18) 10 zeroValueBN
           (oneSplitAddress_or_default envr r) b = Inr ret"
    and "returnAmount ret \<noteq> 0"
    and "snd (daiUsdPriceBN sv) = Inr f"
  shows "snd (getTokenOneSplitPrice envr sv t d b r) =
           Inr (tdiv (tdiv (10 ^ d * 10 ^ 8 * f) (returnAmount ret)) (10 ^ 8))
       \<and> (d = 18 \<and> returnAmount ret = 5 * 10 ^ 17 \<and> f = 10 ^ 8 \<longrightarrow>
            snd (getTokenOneSplitPrice envr sv t d b r) = Inr (2 * 10 ^ 8))"
proof -
  have formula: "snd (getTokenOneSplitPrice envr sv t d b r) =
      Inr (tdiv (tdiv (10 ^ d * 10 ^ 8 * f) (returnAmount ret)) (10 ^ 8))"
    using assms by (rule getTokenOneSplitPrice_implied)
  have example: "tdiv (tdiv (10 ^ 18 * 10 ^ 8 * 10 ^ 8) (5 * 10 ^ 17)) (10 ^ 8) = 2 * 10 ^ 8"
    by (simp add: tdiv_def)
  show ?thesis using formula example by auto
qed

text \<open>
  The spec's example, run on the aggregator quote and feed value it names.
\<close>

theorem implied_price_formula_witness:
  "WETH_ADDRESS \<noteq> DAI_ADDRESS \<and> WETH_ADDRESS \<noteq> SAI_ADDRESS
   \<and> getExpectedReturn sv_swap DAI_ADDRESS WETH_ADDRESS (10 ^ 18) 10 zeroValueBN
        (oneSplitAddress_or_default env_example None) None
      = Inr \<lparr>returnAmount = 5 * 10 ^ 17, distribution = []\<rparr>
   \<and> snd (daiUsdPriceBN sv_swap) = Inr (10 ^ 8)
   \<and> snd (getTokenOneSplitPrice env_example sv_swap WETH_ADDRESS 18 None None) = Inr (2 * 10 ^ 8)"
proof -
  have agg: "getExpectedReturn sv_swap DAI_ADDRESS WETH_ADDRESS (10 ^ 18) 10 zeroValueBN
        (oneSplitAddress_or_default env_example None) None
      = Inr \<lparr>returnAmount = 5 * 10 ^ 17, distribution = []\<rparr>"
    by (simp add: sv_swap_def)
  have nz: "returnAmount \<lparr>returnAmount = 5 * 10 ^ 17, distribution = []\<rparr> \<noteq> 0"
    by simp
  show ?thesis
    using implied_price_formula [OF WETH_not_stable agg nz feed_swap, of 18] agg feed_swap WETH_not_stable
    by (simp add: tdiv_def)
qed

subsection \<open>C5: degrading to zero\<close>



subsection \<open>C6: cache keys and letter case\<close>

text \<open>
  C6 as stated fails. \<^verbatim>\<open>DAI_ADDRESS\<close> and its lowercase form differ only in letter
  case, yet two calls of \<^verbatim>\<open>getUsdTokenPrice\<close> with them construct two subjects, and for
  the lowercase form \<^verbatim>\<open>getTokenOneSplitPrice\<close> asks the aggregator instead of delivering
  the constant.
\<close>

theorem case_variants_share_key_counterexample:
  "spec_normalize (spec_normalize DAI_ADDRESS) = spec_normalize DAI_ADDRESS
   \<and> spec_normalize DAI_ADDRESS \<noteq> DAI_ADDRESS
   \<and> subject_id (fst (getUsdTokenPrice env_example initial_state DAI_ADDRESS 18 None None)) = 0
   \<and> subject_id (fst (getUsdTokenPrice env_example
        (snd (getUsdTokenPrice env_example initial_state DAI_ADDRESS 18 None None))
        (spec_normalize DAI_ADDRESS) 18 None None)) = 1
   \<and> subjects_created (snd (getUsdTokenPrice env_example
        (snd (getUsdTokenPrice env_example initial_state DAI_ADDRESS 18 None None))
        (spec_normalize DAI_ADDRESS) 18 None None)) = 2
   \<and> getTokenOneSplitPrice env_example sv_swap (spec_normalize DAI_ADDRESS) 18 None None
       = ([OneSplitCall, ChainLinkCall], Inr 200000000)"
  by code_simp

text \<open>
  C6, amended. Cache keys are compared as the strings they are, with no
  normalisation: two different address strings, whether or not they differ only in
  letter case, get two entries with two distinct subjects. The stablecoin special case
  applies to exactly the two strings \<^verbatim>\<open>DAI_ADDRESS\<close> and \<^verbatim>\<open>SAI_ADDRESS\<close>: for every other
  string the aggregator is asked.
\<close>

theorem cache_keys_exact:
  assumes "t1 \<noteq> t2"
    and "usdPriceCache st t1 = None" and "usdPriceCache st t2 = None"
    and "getUsdTokenPrice envr st t1 d1 b1 r1 = (s1, st1)"
    and "getUsdTokenPrice envr st1 t2 d2 b2 r2 = (s2, st2)"
  shows "usdPriceCache st2 t1 = Some s1 \<and> usdPriceCache st2 t2 = Some s2
       \<and> subject_id s1 \<noteq> subject_id s2
       \<and> subjects_created st2 = subjects_created st + 2
       \<and> (\<forall>t sv d b r. t \<noteq> DAI_ADDRESS \<and> t \<noteq> SAI_ADDRESS
            \<longrightarrow> OneSplitCall \<in> set (fst (getTokenOneSplitPrice envr sv t d b r)))
       \<and> (\<forall>t sv d b r. t = DAI_ADDRESS \<or> t = SAI_ADDRESS
            \<longrightarrow> getTokenOneSplitPrice envr sv t d b r = ([], Inr (10 ^ 8)))"
proof -
  from assms(2,4) have s1: "subject_id s1 = subjects_created st"
    and st1: "st1 = st\<lparr>usdPriceCache := (usdPriceCache st)(t1 \<mapsto> s1),
          subjects_created := Suc (subjects_created st),
          pipelines_built := Suc (pipelines_built st)\<rparr>"
    by (auto simp add: getUsdTokenPrice_miss)
  have miss2: "usdPriceCache st1 t2 = None" using st1 assms(1,3) by simp
  from miss2 assms(5) have s2: "subject_id s2 = subjects_created st1"
    and st2: "st2 = st1\<lparr>usdPriceCache := (usdPriceCache st1)(t2 \<mapsto> s2),
          subjects_created := Suc (subjects_created st1),
          pipelines_built := Suc (pipelines_built st1)\<rparr>"
    by (auto simp add: getUsdTokenPrice_miss)
  have cache: "usdPriceCache st2 t1 = Some s1 \<and> usdPriceCache st2 t2 = Some s2
       \<and> subject_id s1 \<noteq> subject_id s2
       \<and> subjects_created st2 = subjects_created st + 2"
    using s1 st1 s2 st2 assms(1) by simp
  show ?thesis
    using cache getTokenOneSplitPrice_asks getTokenOneSplitPrice_stable by blast
qed

text \<open>
  The two spellings of the DAI address, from the empty cache.
\<close>

theorem cache_keys_exact_witness:
  "spec_normalize DAI_ADDRESS \<noteq> DAI_ADDRESS
   \<and> usdPriceCache initial_state DAI_ADDRESS = None
   \<and> usdPriceCache initial_state (spec_normalize DAI_ADDRESS) = None
   \<and> subject_id (fst (getUsdTokenPrice env_example initial_state DAI_ADDRESS 18 None None))
      \<noteq> subject_id (fst (getUsdTokenPrice env_example
           (snd (getUsdTokenPrice env_example initial_state DAI_ADDRESS 18 None None))
           (spec_normalize DAI_ADDRESS) 18 None None))
   \<and> getTokenOneSplitPrice env_example sv_all_fail DAI_ADDRESS 18 None None = ([], Inr (10 ^ 8))"
proof -
  have ne: "DAI_ADDRESS \<noteq> spec_normalize DAI_ADDRESS" by code_simp
  have e1: "usdPriceCache initial_state DAI_ADDRESS = None"
    and e2: "usdPriceCache initial_state (spec_normalize DAI_ADDRESS) = None"
    by (simp_all add: initial_state_def)
  have p1: "getUsdTokenPrice env_example initial_state DAI_ADDRESS 18 None None
      = (fst (getUsdTokenPrice env_example initial_state DAI_ADDRESS 18 None None),
         snd (getUsdTokenPrice env_example initial_state DAI_ADDRESS 18 None None))"
    by simp
  have p2: "getUsdTokenPrice env_example
         (snd (getUsdTokenPrice env_example initial_state DAI_ADDRESS 18 None None))
         (spec_normalize DAI_ADDRESS) 18 None None
      = (fst (getUsdTokenPrice env_example
           (snd (getUsdTokenPrice env_example initial_state DAI_ADDRESS 18 None None))
           (spec_normalize DAI_ADDRESS) 18 None None),
         snd (getUsdTokenPrice env_example
           (snd (getUsdTokenPrice env_example initial_state DAI_ADDRESS 18 None None))
           (spec_normalize DAI_ADDRESS) 18 None None))"
    by simp
  show ?thesis
    using cache_keys_exact [OF ne e1 e2 p1 p2] ne e1 e2 by auto
qed

subsection \<open>C7: one entry per key\<close>

text \<open>
  C7. The first call of \<^verbatim>\<open>getUsdTokenPrice\<close> for an address stores exactly one new
  entry under that key, a subject with period \<open>10000\<close> ms, constructing one subject and
  building one pipeline. After any further calls, a call with the same key returns that
  same subject and changes nothing: no subject is constructed and no pipeline built.
  Through any sequence of calls an entry, once stored, stays as it is.
\<close>

theorem cache_entry_created_once:
  assumes "usdPriceCache st t = None"
    and "getUsdTokenPrice envr st t d b r = (s, st1)"
  shows "usdPriceCache st1 = (usdPriceCache st)(t \<mapsto> s)
       \<and> period s = 10000
       \<and> subjects_created st1 = Suc (subjects_created st)
       \<and> pipelines_built st1 = Suc (pipelines_built st)
       \<and> (\<forall>rs d' b' r'. getUsdTokenPrice envr (run_requests envr st1 rs) t d' b' r'
                          = (s, run_requests envr st1 rs))
       \<and> (\<forall>st0 rs k s'. usdPriceCache st0 k = Some s'
                          \<longrightarrow> usdPriceCache (run_requests envr st0 rs) k = Some s')"
proof -
  from assms have s: "s = \<lparr>subject_id = subjects_created st,
       factory = (\<lambda>sv. getTokenPriceBN envr sv t d b (Some (oneSplitAddress_or_default envr r)) True),
       period = 10000\<rparr>"
    and st1: "st1 = st\<lparr>usdPriceCache := (usdPriceCache st)(t \<mapsto> s),
          subjects_created := Suc (subjects_created st),
          pipelines_built := Suc (pipelines_built st)\<rparr>"
    by (auto simp add: getUsdTokenPrice_miss)
  have stored: "usdPriceCache st1 t = Some s" using st1 by simp
  have later: "getUsdTokenPrice envr (run_requests envr st1 rs) t d' b' r'
                 = (s, run_requests envr st1 rs)" for rs d' b' r'
    using run_requests_keeps [OF stored, of envr rs] by (rule getUsdTokenPrice_hit)
  show ?thesis
    using s st1 later run_requests_keeps by auto
qed

text \<open>
  From the empty cache: a first call, two further calls, then the same key again.
\<close>

theorem cache_entry_created_once_witness:
  "usdPriceCache initial_state WETH_ADDRESS = None
   \<and> period (fst (getUsdTokenPrice env_example initial_state WETH_ADDRESS 18 None None)) = 10000
   \<and> subjects_created (snd (getUsdTokenPrice env_example initial_state WETH_ADDRESS 18 None None)) = 1
   \<and> getUsdTokenPrice env_example
        (run_requests env_example (snd (getUsdTokenPrice env_example initial_state WETH_ADDRESS 18 None None))
           [(DAI_ADDRESS, 18, None, None), (WETH_ADDRESS, 6, None, None)])
        WETH_ADDRESS 6 (Some (Block 100)) None
      = (fst (getUsdTokenPrice env_example initial_state WETH_ADDRESS 18 None None),
         run_requests env_example (snd (getUsdTokenPrice env_example initial_state WETH_ADDRESS 18 None None))
           [(DAI_ADDRESS, 18, None, None), (WETH_ADDRESS, 6, None, None)])"
proof -
  have empty: "usdPriceCache initial_state WETH_ADDRESS = None"
    by (simp add: initial_state_def)
  have pair: "getUsdTokenPrice env_example initial_state WETH_ADDRESS 18 None None
      = (fst (getUsdTokenPrice env_example initial_state WETH_ADDRESS 18 None None),
         snd (getUsdTokenPrice env_example initial_state WETH_ADDRESS 18 None None))"
    by simp
  note inst = cache_entry_created_once [OF empty pair]
  have p: "period (fst (getUsdTokenPrice env_example initial_state WETH_ADDRESS 18 None None)) = 10000"
    using inst by blast
  have "subjects_created (snd (getUsdTokenPrice env_example initial_state WETH_ADDRESS 18 None None))
          = Suc (subjects_created initial_state)"
    using inst by blast
  then have c: "subjects_created (snd (getUsdTokenPrice env_example initial_state WETH_ADDRESS 18 None None)) = 1"
    by (simp add: initial_state_def)
  have l: "getUsdTokenPrice env_example
        (run_requests env_example (snd (getUsdTokenPrice env_example initial_state WETH_ADDRESS 18 None None))
           [(DAI_ADDRESS, 18, None, None), (WETH_ADDRESS, 6, None, None)])
        WETH_ADDRESS 6 (Some (Block 100)) None
      = (fst (getUsdTokenPrice env_example initial_state WETH_ADDRESS 18 None None),
         run_requests env_example (snd (getUsdTokenPrice env_example initial_state WETH_ADDRESS 18 None None))
           [(DAI_ADDRESS, 18, None, None), (WETH_ADDRESS, 6, None, None)])"
    using inst by blast
  from empty p c l show ?thesis by blast
qed

subsection \<open>C8: which failures reach the caller\<close>

text \<open>
  C8 as stated fails. \<^verbatim>\<open>getTokenPriceFromHelper\<close> has no handler of its own: when the
  helper read fails, the failure reaches the caller.
\<close>

theorem helper_failure_propagates_counterexample:
  "getTokenPriceFromHelper env_example sv_all_fail WETH_ADDRESS 18 None None
     = ([TokenHelperCall], Inl AdapterFailure)"
  by (simp add: getTokenPriceFromHelper_eq sv_all_fail_def)

text \<open>
  C8, amended. No failure of a collaborator reaches a caller of \<^verbatim>\<open>getTokenPriceBN\<close>
  (with or without the off-chain source) or of \<^verbatim>\<open>getTokenOneSplitPrice\<close>. The factory
  behind every subject that \<^verbatim>\<open>getUsdTokenPrice\<close> returns, after any earlier calls, is
  that chain and always delivers a value, so no failure of a collaborator makes the
  factory fail, on its first resolution or on a later one. The one operation that lets
  a failure through is \<^verbatim>\<open>getTokenPriceFromHelper\<close>: it delivers the outcome of the helper
  read unchanged, so a failure of that read does reach its caller.
\<close>

theorem one_shot_failures:
  "(\<exists>v. snd (getTokenPriceBN envr sv t d b r u) = Inr v)
   \<and> (\<exists>v. snd (getTokenOneSplitPrice envr sv t d b r) = Inr v)
   \<and> (\<forall>rs. \<exists>v. snd (factory (fst (getUsdTokenPrice envr (run_requests envr initial_state rs) t d b r)) sv)
                  = Inr v)
   \<and> snd (getTokenPriceFromHelper envr sv t d b r)
       = getTokenUSDValue sv t (10 ^ d) (oneSplitAddress_or_default envr r) (block_or_latest b)
   \<and> (\<forall>e. getTokenUSDValue sv t (10 ^ d) (oneSplitAddress_or_default envr r) (block_or_latest b) = Inl e
        \<longrightarrow> snd (getTokenPriceFromHelper envr sv t d b r) = Inl e)"
  using getTokenPriceBN_succeeds [of envr sv t d b r u]
    getTokenOneSplitPrice_succeeds [of envr sv t d b r]
    cached_factory_total [of envr _ t d b r sv]
  by (simp add: getTokenPriceFromHelper_eq)

text \<open>
  With every collaborator failing: the helper operation fails, the chain and the
  factory of a newly cached subject do not.
\<close>

theorem one_shot_failures_witness:
  "getTokenUSDValue sv_all_fail WETH_ADDRESS (10 ^ 18)
      (oneSplitAddress_or_default env_example None) (block_or_latest None) = Inl AdapterFailure
   \<and> snd (getTokenPriceFromHelper env_example sv_all_fail WETH_ADDRESS 18 None None) = Inl AdapterFailure
   \<and> (\<exists>v. snd (getTokenPriceBN env_example sv_all_fail WETH_ADDRESS 18 None None True) = Inr v)
   \<and> (\<exists>v. snd (getTokenOneSplitPrice env_example sv_all_fail WETH_ADDRESS 18 None None) = Inr v)
   \<and> (\<exists>v. snd (factory (fst (getUsdTokenPrice env_example
                  (run_requests env_example initial_state [(DAI_ADDRESS, 18, None, None)])
                  WETH_ADDRESS 18 None None)) sv_all_fail) = Inr v)"
proof -
  have h: "getTokenUSDValue sv_all_fail WETH_ADDRESS (10 ^ 18)
      (oneSplitAddress_or_default env_example None) (block_or_latest None) = Inl AdapterFailure"
    by (simp add: sv_all_fail_def)
  note inst = one_shot_failures [of env_example sv_all_fail WETH_ADDRESS 18 None None True]
  have a: "snd (getTokenPriceFromHelper env_example sv_all_fail WETH_ADDRESS 18 None None)
           = Inl AdapterFailure"
    using inst h by simp
  have b: "\<exists>v. snd (getTokenPriceBN env_example sv_all_fail WETH_ADDRESS 18 None None True) = Inr v"
    using inst by blast
  have c: "\<exists>v. snd (getTokenOneSplitPrice env_example sv_all_fail WETH_ADDRESS 18 None None) = Inr v"
    using inst by blast
  have d: "\<exists>v. snd (factory (fst (getUsdTokenPrice env_example
                  (run_requests env_example initial_state [(DAI_ADDRESS, 18, None, None)])
                  WETH_ADDRESS 18 None None)) sv_all_fail) = Inr v"
    using inst by blast
  from h a b c d show ?thesis by blast
qed

subsection \<open>C9: the shared reference feed and its retries\<close>

text \<open>
  C9 as stated fails in its first half. The feed is not one subscription reused by all
  resolutions: with \<^verbatim>\<open>refCount: true\<close> it is dropped when its last subscriber leaves before
  the source has completed. Here the aggregator fails while the feed's first read is
  still open; the resolution leaves, and the next resolution finds no subject, opens a
  second subscription to the source and reads the feed again.
\<close>

theorem reference_feed_reopened_counterexample:
  "fst (getTokenOneSplitPrice env_example sv_quote_fails WETH_ADDRESS 18 None None)
     = [OneSplitCall, ChainLinkCall]
   \<and> replaySubject (feedSubject
         (after_resolution env_example sv_quote_fails WETH_ADDRESS 18 None None)) = None
   \<and> fst (getTokenOneSplitPrice env_example
           (after_resolution env_example sv_quote_fails WETH_ADDRESS 18 None None)
           WETH_ADDRESS 18 None None)
       = [OneSplitCall, ChainLinkCall]
   \<and> sourceSubscriptions (feedSubject
         (after_resolution env_example
            (after_resolution env_example sv_quote_fails WETH_ADDRESS 18 None None)
            WETH_ADDRESS 18 None None)) = 2"
  by code_simp

text \<open>
  C9, amended. The reference feed is one pipeline, read by every resolution that
  reaches the swap path. A subscriber that arrives while the source is subscribed
  shares that subscription, and a subscriber that arrives while the subject holds a
  value is handed that value without a read; in neither case is the source subscribed
  again. The subscription is not kept for all resolutions: when the last subscriber
  leaves before the source has completed, and when the source fails for good, the
  subject is dropped, and the next subscriber opens a new subscription. Within one
  subscription a failed read is repeated up to five times: if the first six reads all
  fail, the subscription fails with the sixth failure, after exactly six reads; if a
  read among the first six succeeds, the earlier failures stay invisible and that
  value is delivered.
\<close>

theorem reference_feed_shared_and_retried:
  "(share_replayed (feedSubject sv) = None \<and> (\<forall>k\<le>5. \<exists>e. latestAnswer sv k = Inl e)
      \<longrightarrow> daiUsdPriceBN sv = (replicate 6 ChainLinkCall, latestAnswer sv 5))
   \<and> (\<forall>k v. share_replayed (feedSubject sv) = None
            \<and> k \<le> 5 \<and> (\<forall>j<k. \<exists>e. latestAnswer sv j = Inl e) \<and> latestAnswer sv k = Inr v
        \<longrightarrow> daiUsdPriceBN sv = (replicate (Suc k) ChainLinkCall, Inr v))
   \<and> (\<forall>v. share_replayed (feedSubject sv) = Some v \<longrightarrow> daiUsdPriceBN sv = ([], Inr v))
   \<and> (\<forall>es. subscription (share_run share_initial es)
        \<longrightarrow> sourceSubscriptions (share_subscribe (share_run share_initial es))
            = sourceSubscriptions (share_run share_initial es))
   \<and> (\<forall>es v. share_replayed (share_run share_initial es) = Some v
        \<longrightarrow> sourceSubscriptions (share_subscribe (share_run share_initial es))
            = sourceSubscriptions (share_run share_initial es))
   \<and> (\<forall>es. subscription (share_run share_initial es) \<and> refCount (share_run share_initial es) = 1
        \<longrightarrow> share_replayed (share_step (share_run share_initial es) Unsubscribe) = None
          \<and> sourceSubscriptions (share_subscribe (share_step (share_run share_initial es) Unsubscribe))
              = Suc (sourceSubscriptions (share_run share_initial es)))
   \<and> (\<forall>es. subscription (share_run share_initial es)
        \<longrightarrow> share_replayed (share_step (share_run share_initial es) SourceError) = None
          \<and> sourceSubscriptions (share_subscribe (share_step (share_run share_initial es) SourceError))
              = Suc (sourceSubscriptions (share_run share_initial es)))
   \<and> (t \<noteq> DAI_ADDRESS \<and> t \<noteq> SAI_ADDRESS
        \<longrightarrow> (\<exists>n. fst (getTokenOneSplitPrice envr sv t d b r)
                   = OneSplitCall # take n (fst (daiUsdPriceBN sv))))"
proof -
  have a: "daiUsdPriceBN sv = (replicate 6 ChainLinkCall, latestAnswer sv 5)"
    if "share_replayed (feedSubject sv) = None" "\<forall>k\<le>5. \<exists>e. latestAnswer sv k = Inl e"
    using retry_all_fail [of 5 "latestAnswer sv" 0 ChainLinkCall] that
    by (simp add: daiUsdPriceBN_fresh)
  have b: "daiUsdPriceBN sv = (replicate (Suc k) ChainLinkCall, Inr v)"
    if "share_replayed (feedSubject sv) = None" "k \<le> 5"
      "\<forall>j<k. \<exists>e. latestAnswer sv j = Inl e" "latestAnswer sv k = Inr v" for k v
    using retry_first_success [of k 5 "latestAnswer sv" 0 v ChainLinkCall] that
    by (simp add: daiUsdPriceBN_fresh)
  have c: "daiUsdPriceBN sv = ([], Inr v)" if "share_replayed (feedSubject sv) = Some v" for v
    using that by (rule daiUsdPriceBN_replay)
  have inv: "share_inv (share_run share_initial es)" for es
    using share_inv_initial by (rule share_run_inv)
  have shared: "sourceSubscriptions (share_subscribe (share_run share_initial es))
                  = sourceSubscriptions (share_run share_initial es)"
    if "subscription (share_run share_initial es)" for es
    using share_subscribe_shared [OF inv that] by simp
  have handed: "sourceSubscriptions (share_subscribe (share_run share_initial es))
                  = sourceSubscriptions (share_run share_initial es)"
    if "share_replayed (share_run share_initial es) = Some v" for es v
    using that
    by (auto simp add: share_replayed_def share_subscribe_def Let_def
        split: if_splits option.splits)
  have dropped: "share_replayed (share_step (share_run share_initial es) Unsubscribe) = None
          \<and> sourceSubscriptions (share_subscribe (share_step (share_run share_initial es) Unsubscribe))
              = Suc (sourceSubscriptions (share_run share_initial es))"
    if "subscription (share_run share_initial es)" "refCount (share_run share_initial es) = 1" for es
    using that inv [of es]
    by (simp add: share_inv_def share_teardown_def share_replayed_def share_subscribe_def Let_def)
  have failed: "share_replayed (share_step (share_run share_initial es) SourceError) = None
          \<and> sourceSubscriptions (share_subscribe (share_step (share_run share_initial es) SourceError))
              = Suc (sourceSubscriptions (share_run share_initial es))"
    if "subscription (share_run share_initial es)" for es
    using that share_error_eq [OF inv that]
    by (simp add: share_replayed_def share_subscribe_def Let_def)
  have reads: "\<exists>n. fst (getTokenOneSplitPrice envr sv t d b r)
                   = OneSplitCall # take n (fst (daiUsdPriceBN sv))"
    if "t \<noteq> DAI_ADDRESS" "t \<noteq> SAI_ADDRESS"
    using that by (rule getTokenOneSplitPrice_calls)
  from a b c shared handed dropped failed reads show ?thesis by blast
qed

text \<open>
  Six failures surface, five followed by a success do not. A resolution in which the
  feed answers before the aggregator leaves a value behind, and the next one is handed
  it without a read. Of two subscribers present together the second opens nothing;
  after the only subscriber has left, the next one opens a second subscription.
\<close>

theorem reference_feed_shared_and_retried_witness:
  "map (latestAnswer sv_all_fail) [0, 1, 2, 3, 4, 5] = replicate 6 (Inl AdapterFailure)
   \<and> daiUsdPriceBN sv_all_fail = (replicate 6 ChainLinkCall, Inl AdapterFailure)
   \<and> map (latestAnswer sv_feed_sixth) [0, 1, 2, 3, 4] = replicate 5 (Inl AdapterFailure)
   \<and> latestAnswer sv_feed_sixth 5 = Inr (10 ^ 8)
   \<and> daiUsdPriceBN sv_feed_sixth = (replicate 6 ChainLinkCall, Inr (10 ^ 8))
   \<and> share_replayed (feedSubject
         (after_resolution env_example sv_feed_first WETH_ADDRESS 18 None None)) = Some (10 ^ 8)
   \<and> daiUsdPriceBN (after_resolution env_example sv_feed_first WETH_ADDRESS 18 None None)
       = ([], Inr (10 ^ 8))
   \<and> sourceSubscriptions (share_run share_initial [Subscribe]) = 1
   \<and> sourceSubscriptions (share_subscribe (share_run share_initial [Subscribe])) = 1
   \<and> sourceSubscriptions
         (share_subscribe (share_step (share_run share_initial [Subscribe, SourceNext (10 ^ 8)])
            Unsubscribe)) = 2"
proof -
  have f1: "\<forall>k\<le>5. \<exists>e. latestAnswer sv_all_fail k = Inl e"
    by (simp add: sv_all_fail_def)
  have f2: "\<forall>j<5. \<exists>e. latestAnswer sv_feed_sixth j = Inl e"
    by (simp add: sv_feed_sixth_def)
  have f3: "latestAnswer sv_feed_sixth 5 = Inr (10 ^ 8)"
    by (simp add: sv_feed_sixth_def)
  have f4: "latestAnswer sv_all_fail 5 = Inl AdapterFailure"
    by (simp add: sv_all_fail_def)
  have l1: "map (latestAnswer sv_all_fail) [0, 1, 2, 3, 4, 5] = replicate 6 (Inl AdapterFailure)"
    by (simp add: sv_all_fail_def eval_nat_numeral)
  have l2: "map (latestAnswer sv_feed_sixth) [0, 1, 2, 3, 4] = replicate 5 (Inl AdapterFailure)"
    by (simp add: sv_feed_sixth_def eval_nat_numeral)
  have n1: "share_replayed (feedSubject sv_all_fail) = None"
    by (simp add: sv_all_fail_def share_replayed_def share_initial_def)
  have n2: "share_replayed (feedSubject sv_feed_sixth) = None"
    by (simp add: sv_feed_sixth_def sv_swap_def share_replayed_def share_initial_def)
  have r1: "daiUsdPriceBN sv_all_fail = (replicate 6 ChainLinkCall, Inl AdapterFailure)"
    using reference_feed_shared_and_retried [of sv_all_fail WETH_ADDRESS env_example 18 None None]
      n1 f1 f4
    by simp
  have r2: "daiUsdPriceBN sv_feed_sixth = (replicate 6 ChainLinkCall, Inr (10 ^ 8))"
  proof -
    have step: "\<forall>k v. share_replayed (feedSubject sv_feed_sixth) = None
          \<and> k \<le> 5 \<and> (\<forall>j<k. \<exists>e. latestAnswer sv_feed_sixth j = Inl e)
          \<and> latestAnswer sv_feed_sixth k = Inr v
        \<longrightarrow> daiUsdPriceBN sv_feed_sixth = (replicate (Suc k) ChainLinkCall, Inr v)"
      using reference_feed_shared_and_retried [of sv_feed_sixth WETH_ADDRESS env_example 18 None None]
      by blast
    have "daiUsdPriceBN sv_feed_sixth = (replicate (Suc 5) ChainLinkCall, Inr (10 ^ 8))"
      using step n2 f2 f3 by blast
    then show ?thesis by simp
  qed
  have kept: "share_replayed (feedSubject
         (after_resolution env_example sv_feed_first WETH_ADDRESS 18 None None)) = Some (10 ^ 8)"
    by code_simp
  have r3: "daiUsdPriceBN (after_resolution env_example sv_feed_first WETH_ADDRESS 18 None None)
       = ([], Inr (10 ^ 8))"
    using reference_feed_shared_and_retried
      [of "after_resolution env_example sv_feed_first WETH_ADDRESS 18 None None"
          WETH_ADDRESS env_example 18 None None]
      kept
    by blast
  have s0: "subscription (share_run share_initial [Subscribe])"
    and c0: "sourceSubscriptions (share_run share_initial [Subscribe]) = 1"
    by code_simp+
  have r4: "sourceSubscriptions (share_subscribe (share_run share_initial [Subscribe])) = 1"
  proof -
    have "sourceSubscriptions (share_subscribe (share_run share_initial [Subscribe]))
            = sourceSubscriptions (share_run share_initial [Subscribe])"
      using reference_feed_shared_and_retried [of sv_all_fail WETH_ADDRESS env_example 18 None None]
        s0
      by blast
    then show ?thesis using c0 by simp
  qed
  have s1: "subscription (share_run share_initial [Subscribe, SourceNext (10 ^ 8)])"
    and s2: "refCount (share_run share_initial [Subscribe, SourceNext (10 ^ 8)]) = 1"
    and c1: "sourceSubscriptions (share_run share_initial [Subscribe, SourceNext (10 ^ 8)]) = 1"
    by code_simp+
  have r5: "sourceSubscriptions
         (share_subscribe (share_step (share_run share_initial [Subscribe, SourceNext (10 ^ 8)])
            Unsubscribe)) = 2"
  proof -
    have "sourceSubscriptions
         (share_subscribe (share_step (share_run share_initial [Subscribe, SourceNext (10 ^ 8)])
            Unsubscribe))
        = Suc (sourceSubscriptions (share_run share_initial [Subscribe, SourceNext (10 ^ 8)]))"
      using reference_feed_shared_and_retried [of sv_all_fail WETH_ADDRESS env_example 18 None None]
        s1 s2
      by blast
    then show ?thesis using c1 by simp
  qed
  from l1 r1 l2 f3 r2 kept r3 c0 r4 r5 show ?thesis by blast
qed

subsection \<open>C10: later arguments are ignored\<close>

text \<open>
  C10. Once a first call of \<^verbatim>\<open>getUsdTokenPrice\<close> has stored an entry for an address,
  every later call with that address, after any other calls and whatever decimals,
  block number and router address it passes, returns the subject of the first call,
  whose factory is the chain built from the first call's arguments.
\<close>

theorem later_arguments_ignored:
  assumes "usdPriceCache st t = None"
    and "getUsdTokenPrice envr st t d b r = (s, st1)"
  shows "(\<forall>rs d' b' r'. fst (getUsdTokenPrice envr (run_requests envr st1 rs) t d' b' r') = s)
       \<and> (\<forall>sv. factory s sv = getTokenPriceBN envr sv t d b r True)"
proof -
  from assms have s: "s = \<lparr>subject_id = subjects_created st,
       factory = (\<lambda>sv. getTokenPriceBN envr sv t d b (Some (oneSplitAddress_or_default envr r)) True),
       period = 10000\<rparr>"
    and st1: "st1 = st\<lparr>usdPriceCache := (usdPriceCache st)(t \<mapsto> s),
          subjects_created := Suc (subjects_created st),
          pipelines_built := Suc (pipelines_built st)\<rparr>"
    by (auto simp add: getUsdTokenPrice_miss)
  have stored: "usdPriceCache st1 t = Some s" using st1 by simp
  have later: "fst (getUsdTokenPrice envr (run_requests envr st1 rs) t d' b' r') = s" for rs d' b' r'
    using getUsdTokenPrice_hit [OF run_requests_keeps [OF stored, of envr rs], of envr d' b' r']
    by simp
  have "factory s sv = getTokenPriceBN envr sv t d b r True" for sv
    using s by (simp add: getTokenPriceBN_resolved)
  with later show ?thesis by blast
qed

text \<open>
  A later call with other decimals, block and router still resolves with the first
  call's arguments.
\<close>

theorem later_arguments_ignored_witness:
  "usdPriceCache initial_state WETH_ADDRESS = None
   \<and> factory
        (fst (getUsdTokenPrice env_example
           (run_requests env_example
              (snd (getUsdTokenPrice env_example initial_state WETH_ADDRESS 18 None None))
              [(DAI_ADDRESS, 18, None, None)])
           WETH_ADDRESS 6 (Some (Block 100)) (Some ''0x0000000000000000000000000000000000000001'')))
        sv_swap
      = ([CoinGeckoCall, TokenHelperCall, OneSplitCall, ChainLinkCall], Inr 200000000)"
proof -
  have empty: "usdPriceCache initial_state WETH_ADDRESS = None"
    by (simp add: initial_state_def)
  have pair: "getUsdTokenPrice env_example initial_state WETH_ADDRESS 18 None None
      = (fst (getUsdTokenPrice env_example initial_state WETH_ADDRESS 18 None None),
         snd (getUsdTokenPrice env_example initial_state WETH_ADDRESS 18 None None))"
    by simp
  note inst = later_arguments_ignored [OF empty pair]
  have same: "fst (getUsdTokenPrice env_example
           (run_requests env_example
              (snd (getUsdTokenPrice env_example initial_state WETH_ADDRESS 18 None None))
              [(DAI_ADDRESS, 18, None, None)])
           WETH_ADDRESS 6 (Some (Block 100)) (Some ''0x0000000000000000000000000000000000000001''))
      = fst (getUsdTokenPrice env_example initial_state WETH_ADDRESS 18 None None)"
    using inst by blast
  have first: "factory (fst (getUsdTokenPrice env_example initial_state WETH_ADDRESS 18 None None)) sv_swap
      = getTokenPriceBN env_example sv_swap WETH_ADDRESS 18 None None True"
    using inst by blast
  from empty same first chain_swap_WETH show ?thesis by (simp only:)
qed

end
